theory Spec2Isabelle
  imports Complex_Main "HOL-Library.AList"
begin

section \<open>Data models\<close>

text \<open>
  The records follow the classes of \<^verbatim>\<open>main.py\<close>. Python floats are read as the real
  numbers they denote and compared with the decimal thresholds of the source (not-a-number
  and the infinities are left out); strings are lists of bytes (the UTF-8 encoding of the
  Python string).
\<close>

text \<open>\<^verbatim>\<open>class IntentExtraction(BaseModel)\<close>\<close>

record intent_extraction =
  activity :: string
  datetime_str :: string
  location :: "string option"
  confidence :: real
  is_weather_query :: bool
  has_specific_time :: bool

text \<open>\<^verbatim>\<open>class WeatherData(BaseModel)\<close>\<close>

record weather_data =
  temperature :: real
  description :: string
  is_rainy :: bool
  humidity :: int
  feels_like :: "real option"

text \<open>\<^verbatim>\<open>class AgentState(TypedDict)\<close>\<close>

record agent_state =
  user_message :: string
  telegram_chat_id :: int
  intent :: "intent_extraction option"
  weather :: "weather_data option"
  calendar_event_created :: bool
  response_message :: string
  needs_clarification :: bool

section \<open>Python strings\<close>

text \<open>
  The string methods the program calls, on ASCII: letters outside \<^verbatim>\<open>A-Z\<close> and \<^verbatim>\<open>a-z\<close> are
  left alone by \<^verbatim>\<open>lower\<close> and \<^verbatim>\<open>title\<close>, and only the ASCII white space is white space. None
  of the keywords of the program has a character outside ASCII. \<^verbatim>\<open>len(s)\<close> is the length of
  the list, which is Python's length for ASCII text.
\<close>

definition lower_char :: "char \<Rightarrow> char" where
  "lower_char c =
     (case map_of (zip ''ABCDEFGHIJKLMNOPQRSTUVWXYZ'' ''abcdefghijklmnopqrstuvwxyz'') c of
        Some d \<Rightarrow> d
      | None \<Rightarrow> c)"

definition upper_char :: "char \<Rightarrow> char" where
  "upper_char c =
     (case map_of (zip ''abcdefghijklmnopqrstuvwxyz'' ''ABCDEFGHIJKLMNOPQRSTUVWXYZ'') c of
        Some d \<Rightarrow> d
      | None \<Rightarrow> c)"

definition is_alpha :: "char \<Rightarrow> bool" where
  "is_alpha c =
     (c \<in> set ''ABCDEFGHIJKLMNOPQRSTUVWXYZ'' \<or> c \<in> set ''abcdefghijklmnopqrstuvwxyz'')"

text \<open>\<^verbatim>\<open>s.lower()\<close>\<close>

definition lower :: "string \<Rightarrow> string" where
  "lower s = map lower_char s"

text \<open>\<^verbatim>\<open>s.title()\<close>: a letter after a letter is lower-cased, any other letter upper-cased.\<close>

fun title_from :: "bool \<Rightarrow> string \<Rightarrow> string" where
  "title_from prev [] = []"
| "title_from prev (c # cs) =
     (if is_alpha c
      then (if prev then lower_char c else upper_char c) # title_from True cs
      else c # title_from False cs)"

definition title :: "string \<Rightarrow> string" where
  "title s = title_from False s"

text \<open>\<^verbatim>\<open>s.startswith(p)\<close> and \<^verbatim>\<open>sub in s\<close>\<close>

fun startswith :: "string \<Rightarrow> string \<Rightarrow> bool" where
  "startswith s [] = True"
| "startswith [] (p # ps) = False"
| "startswith (c # cs) (p # ps) = (c = p \<and> startswith cs ps)"

fun str_in :: "string \<Rightarrow> string \<Rightarrow> bool" where
  "str_in sub [] = (sub = [])"
| "str_in sub (c # cs) = (startswith (c # cs) sub \<or> str_in sub cs)"

text \<open>\<^verbatim>\<open>any(word in s for word in words)\<close>\<close>

definition any_in :: "string list \<Rightarrow> string \<Rightarrow> bool" where
  "any_in words s = list_ex (\<lambda>word. str_in word s) words"

text \<open>\<^verbatim>\<open>s.strip()\<close> and \<^verbatim>\<open>s.split()\<close>\<close>

definition is_space :: "char \<Rightarrow> bool" where
  "is_space c =
     (c \<in> set [CHR '' '', CHR 0x09, CHR 0x0A, CHR 0x0B, CHR 0x0C, CHR 0x0D,
                CHR 0x1C, CHR 0x1D, CHR 0x1E, CHR 0x1F])"

definition strip :: "string \<Rightarrow> string" where
  "strip s = rev (dropWhile is_space (rev (dropWhile is_space s)))"

fun split_from :: "string \<Rightarrow> string \<Rightarrow> string list" where
  "split_from cur [] = (if cur = [] then [] else [rev cur])"
| "split_from cur (c # cs) =
     (if is_space c
      then (if cur = [] then split_from [] cs else rev cur # split_from [] cs)
      else split_from (c # cur) cs)"

definition split :: "string \<Rightarrow> string list" where
  "split s = split_from [] s"

text \<open>\<^verbatim>\<open>s.replace(old, new)\<close>: every occurrence, left to right, without overlap.\<close>

fun replace :: "string \<Rightarrow> string \<Rightarrow> string \<Rightarrow> string" where
  "replace [] old new = (if old = [] then new else [])"
| "replace (c # cs) old new =
     (if old = [] then new @ c # replace cs old new
      else if startswith (c # cs) old then new @ replace (drop (length old) (c # cs)) old new
      else c # replace cs old new)"

text \<open>\<^verbatim>\<open>str(n)\<close> for an integer, and a number padded with zeros to a width.\<close>

definition digit_char :: "nat \<Rightarrow> char" where
  "digit_char n = ''0123456789'' ! (n mod 10)"

fun str_nat :: "nat \<Rightarrow> string" where
  "str_nat n = (if n < 10 then [digit_char n] else str_nat (n div 10) @ [digit_char n])"

declare str_nat.simps [simp del]

definition str_int :: "int \<Rightarrow> string" where
  "str_int i = (if i < 0 then CHR ''-'' # str_nat (nat (- i)) else str_nat (nat i))"

definition zero_pad :: "nat \<Rightarrow> nat \<Rightarrow> string" where
  "zero_pad width n = replicate (width - length (str_nat n)) CHR ''0'' @ str_nat n"

section \<open>Dates and times\<close>

text \<open>
  A \<^verbatim>\<open>datetime\<close> object: the calendar fields and the offset from UTC in minutes
  (\<^verbatim>\<open>None\<close> for a naive value).
\<close>

record datetime =
  year :: nat
  month :: nat
  day :: nat
  hour :: nat
  minute :: nat
  second :: nat
  microsecond :: nat
  tzinfo :: "int option"

definition is_leap :: "nat \<Rightarrow> bool" where
  "is_leap y = (y mod 4 = 0 \<and> (y mod 100 \<noteq> 0 \<or> y mod 400 = 0))"

definition days_in_month :: "nat \<Rightarrow> nat \<Rightarrow> nat" where
  "days_in_month y m =
     (if m = 2 \<and> is_leap y then 29
      else [31, 28, 31, 30, 31, 30, 31, 31, 30, 31, 30, 31] ! (m - 1))"

definition days_before_year :: "nat \<Rightarrow> nat" where
  "days_before_year y = (y - 1) * 365 + (y - 1) div 4 - (y - 1) div 100 + (y - 1) div 400"

definition days_before_month :: "nat \<Rightarrow> nat \<Rightarrow> nat" where
  "days_before_month y m = sum_list (map (days_in_month y) [1..<m])"

text \<open>\<^verbatim>\<open>d.toordinal()\<close>: day 1 is 1 January of year 1.\<close>

definition toordinal :: "nat \<times> nat \<times> nat \<Rightarrow> nat" where
  "toordinal d = (case d of (y, m, dd) \<Rightarrow> days_before_year y + days_before_month y m + dd)"

text \<open>\<^verbatim>\<open>dt.date()\<close>, and \<^verbatim>\<open>(a - b).days\<close> for two dates.\<close>

definition date :: "datetime \<Rightarrow> nat \<times> nat \<times> nat" where
  "date dt = (year dt, month dt, day dt)"

definition days_between :: "nat \<times> nat \<times> nat \<Rightarrow> nat \<times> nat \<times> nat \<Rightarrow> int" where
  "days_between a b = int (toordinal a) - int (toordinal b)"

text \<open>The names of \<^verbatim>\<open>%A\<close> and \<^verbatim>\<open>%B\<close> (C locale); Monday is the first day of the week.\<close>

definition weekday_name :: "nat \<times> nat \<times> nat \<Rightarrow> string" where
  "weekday_name d =
     [''Monday'', ''Tuesday'', ''Wednesday'', ''Thursday'', ''Friday'', ''Saturday'', ''Sunday'']
       ! ((toordinal d + 6) mod 7)"

definition month_name :: "nat \<Rightarrow> string" where
  "month_name m =
     [''January'', ''February'', ''March'', ''April'', ''May'', ''June'', ''July'', ''August'',
      ''September'', ''October'', ''November'', ''December''] ! (m - 1)"

subsection \<open>\<^verbatim>\<open>datetime.fromisoformat\<close> and \<^verbatim>\<open>isoformat\<close>\<close>

text \<open>
  The strings read are the ones \<^verbatim>\<open>isoformat\<close> writes: \<^verbatim>\<open>YYYY-MM-DD\<close>, then after one
  separator character \<^verbatim>\<open>HH[:MM[:SS[.fff[fff]]]]\<close> and an offset \<^verbatim>\<open>+HH:MM\<close> or \<^verbatim>\<open>-HH:MM\<close>.
  \<^verbatim>\<open>None\<close> stands for the \<^verbatim>\<open>ValueError\<close> of a string that is not read.
\<close>

definition is_digit :: "char \<Rightarrow> bool" where
  "is_digit c = (c \<in> set ''0123456789'')"

definition digit_val :: "char \<Rightarrow> nat" where
  "digit_val c =
     (case map_of (zip ''0123456789'' [0, 1, 2, 3, 4, 5, 6, 7, 8, 9]) c of
        Some v \<Rightarrow> v
      | None \<Rightarrow> 0)"

fun parse_digits :: "nat \<Rightarrow> string \<Rightarrow> (nat \<times> string) option" where
  "parse_digits 0 s = Some (0, s)"
| "parse_digits (Suc n) [] = None"
| "parse_digits (Suc n) (c # cs) =
     (if is_digit c
      then (case parse_digits n cs of
              None \<Rightarrow> None
            | Some (v, r) \<Rightarrow> Some (digit_val c * 10 ^ n + v, r))
      else None)"

fun expect_char :: "char \<Rightarrow> string \<Rightarrow> string option" where
  "expect_char c [] = None"
| "expect_char c (d # ds) = (if c = d then Some ds else None)"

definition parse_isoformat_date :: "string \<Rightarrow> ((nat \<times> nat \<times> nat) \<times> string) option" where
  "parse_isoformat_date s =
     (case parse_digits 4 s of None \<Rightarrow> None | Some (y, r1) \<Rightarrow>
      (case expect_char CHR ''-'' r1 of None \<Rightarrow> None | Some r2 \<Rightarrow>
       (case parse_digits 2 r2 of None \<Rightarrow> None | Some (m, r3) \<Rightarrow>
        (case expect_char CHR ''-'' r3 of None \<Rightarrow> None | Some r4 \<Rightarrow>
         (case parse_digits 2 r4 of None \<Rightarrow> None | Some (d, r5) \<Rightarrow>
            Some ((y, m, d), r5))))))"

definition parse_fraction :: "string \<Rightarrow> nat option" where
  "parse_fraction s =
     (if length s = 3 then map_option (\<lambda>(v, r). v * 1000) (parse_digits 3 s)
      else if length s = 6 then map_option (\<lambda>(v, r). v) (parse_digits 6 s)
      else None)"

definition parse_hh_mm_ss_ff :: "string \<Rightarrow> (nat \<times> nat \<times> nat \<times> nat) option" where
  "parse_hh_mm_ss_ff t =
     (case parse_digits 2 t of None \<Rightarrow> None | Some (h, r1) \<Rightarrow>
      if r1 = [] then Some (h, 0, 0, 0) else
      (case expect_char CHR '':'' r1 of None \<Rightarrow> None | Some r2 \<Rightarrow>
       (case parse_digits 2 r2 of None \<Rightarrow> None | Some (m, r3) \<Rightarrow>
        if r3 = [] then Some (h, m, 0, 0) else
        (case expect_char CHR '':'' r3 of None \<Rightarrow> None | Some r4 \<Rightarrow>
         (case parse_digits 2 r4 of None \<Rightarrow> None | Some (sec, r5) \<Rightarrow>
          if r5 = [] then Some (h, m, sec, 0) else
          (case expect_char CHR ''.'' r5 of None \<Rightarrow> None | Some r6 \<Rightarrow>
             map_option (\<lambda>us. (h, m, sec, us)) (parse_fraction r6)))))))"

definition parse_offset :: "string \<Rightarrow> int option option" where
  "parse_offset z =
     (case z of
        [] \<Rightarrow> Some None
      | sg # r \<Rightarrow>
          if length r \<noteq> 5 then None
          else (case parse_hh_mm_ss_ff r of
                  None \<Rightarrow> None
                | Some (h, m, sec, us) \<Rightarrow>
                    if h * 60 + m < 1440
                    then Some (Some ((if sg = CHR ''-'' then - 1 else 1) * int (h * 60 + m)))
                    else None))"

definition fromisoformat :: "string \<Rightarrow> datetime option" where
  "fromisoformat s =
     (case parse_isoformat_date s of None \<Rightarrow> None | Some ((y, m, d), r) \<Rightarrow>
      if \<not> (1 \<le> y \<and> 1 \<le> m \<and> m \<le> 12 \<and> 1 \<le> d \<and> d \<le> days_in_month y m) then None
      else if r = [] then
        Some \<lparr>year = y, month = m, day = d, hour = 0, minute = 0, second = 0,
              microsecond = 0, tzinfo = None\<rparr>
      else
        (let tstr = tl r;
             timestr = takeWhile (\<lambda>c. c \<noteq> CHR ''+'' \<and> c \<noteq> CHR ''-'') tstr;
             tzstr = dropWhile (\<lambda>c. c \<noteq> CHR ''+'' \<and> c \<noteq> CHR ''-'') tstr
         in case parse_hh_mm_ss_ff timestr of None \<Rightarrow> None | Some (h, mi, sec, us) \<Rightarrow>
            (case parse_offset tzstr of None \<Rightarrow> None | Some tz \<Rightarrow>
               if h < 24 \<and> mi < 60 \<and> sec < 60
               then Some \<lparr>year = y, month = m, day = d, hour = h, minute = mi, second = sec,
                          microsecond = us, tzinfo = tz\<rparr>
               else None)))"

definition format_offset :: "int option \<Rightarrow> string" where
  "format_offset tz =
     (case tz of
        None \<Rightarrow> []
      | Some off \<Rightarrow>
          (if off < 0 then ''-'' else ''+'') @ zero_pad 2 (nat \<bar>off\<bar> div 60) @ '':''
            @ zero_pad 2 (nat \<bar>off\<bar> mod 60))"

definition isoformat :: "datetime \<Rightarrow> string" where
  "isoformat dt =
     zero_pad 4 (year dt) @ ''-'' @ zero_pad 2 (month dt) @ ''-'' @ zero_pad 2 (day dt) @ ''T''
       @ zero_pad 2 (hour dt) @ '':'' @ zero_pad 2 (minute dt) @ '':'' @ zero_pad 2 (second dt)
       @ (if microsecond dt \<noteq> 0 then ''.'' @ zero_pad 6 (microsecond dt) else [])
       @ format_offset (tzinfo dt)"

subsection \<open>Well-formed values\<close>



section \<open>Utility functions\<close>

text \<open>
  \<^verbatim>\<open>strftime\<close> with the two formats of the program, \<^verbatim>\<open>"%d %B %Y"\<close> and
  \<^verbatim>\<open>"%d %B %Y, %I:%M %p"\<close>; \<^verbatim>\<open>%Y\<close> is the year without padding, which is Python's text
  for every year from 1000 on.
\<close>

definition strftime_date :: "datetime \<Rightarrow> string" where
  "strftime_date dt = zero_pad 2 (day dt) @ '' '' @ month_name (month dt) @ '' '' @ str_nat (year dt)"

definition strftime_date_time :: "datetime \<Rightarrow> string" where
  "strftime_date_time dt =
     strftime_date dt @ '', ''
       @ zero_pad 2 (if hour dt mod 12 = 0 then 12 else hour dt mod 12) @ '':''
       @ zero_pad 2 (minute dt) @ '' '' @ (if hour dt < 12 then ''AM'' else ''PM'')"

text \<open>
  \<^verbatim>\<open>def format_datetime_human_readable(datetime_str)\<close>: a string that is not read is
  returned as it is (the \<^verbatim>\<open>except\<close> branch).
\<close>

definition format_datetime_human_readable :: "string \<Rightarrow> string" where
  "format_datetime_human_readable s =
     (case fromisoformat (replace s ''Z'' ''+00:00'') of
        None \<Rightarrow> s
      | Some dt \<Rightarrow>
          if hour dt = 0 \<and> minute dt = 0 then strftime_date dt
          else replace (strftime_date_time dt) '' 0'' '' '')"

section \<open>Collaborators\<close>

text \<open>
  The services behind the API clients are parameters of the model: the answer of
  \<^verbatim>\<open>GeminiClient.extract_intent\<close> to a message (the parsed answer of the model, or the
  fallback intent of its \<^verbatim>\<open>except\<close> branch), the answer of
  \<^verbatim>\<open>WeatherClient.get_weather_forecast\<close> for a time and a location (the forecast, or the
  fallback of its \<^verbatim>\<open>except\<close> branch), the success flag of
  \<^verbatim>\<open>GoogleCalendarClient.create_event\<close> for an intent, and the text Python prints for a float.
  Neither client raises. Every call is recorded.
\<close>

record env =
  extract_intent :: "string \<Rightarrow> intent_extraction"
  get_weather_forecast :: "string \<Rightarrow> string \<Rightarrow> weather_data"
  calendar_service :: "intent_extraction \<Rightarrow> bool"
  str_float :: "real \<Rightarrow> string"

datatype call =
  Gemini_call string
  | Weather_call string string
  | Calendar_call "intent_extraction option"

text \<open>A call of the calendar collaborator.\<close>

fun is_calendar_call :: "call \<Rightarrow> bool" where
  "is_calendar_call (Calendar_call i) = True"
| "is_calendar_call c = False"

text \<open>The exceptions that the handlers can raise.\<close>

datatype py_error = AttributeError | ValueError | KeyError

text \<open>
  \<^verbatim>\<open>GoogleCalendarClient.create_event(intent)\<close>: reading a field of \<^verbatim>\<open>None\<close> raises inside
  its \<^verbatim>\<open>try\<close>, and the answer is \<^verbatim>\<open>False\<close>.
\<close>

definition create_event :: "env \<Rightarrow> intent_extraction option \<Rightarrow> bool" where
  "create_event e i = (case i of None \<Rightarrow> False | Some x \<Rightarrow> calendar_service e x)"

section \<open>Response texts\<close>

text \<open>The decorative symbols of the texts, as the bytes the source file holds.\<close>

definition glyph_sun_cloud :: string where
  "glyph_sun_cloud = [CHR 0xEF, CHR 0xA3, CHR 0xBF, CHR 0xC3, CHR 0xBC, CHR 0xC3, CHR 0xA5, CHR 0xC2, CHR 0xA7, CHR 0xC3, CHR 0x94, CHR 0xE2, CHR 0x88, CHR 0x8F, CHR 0xC3, CHR 0xA8]"

definition glyph_thermometer :: string where
  "glyph_thermometer = [CHR 0xEF, CHR 0xA3, CHR 0xBF, CHR 0xC3, CHR 0xBC, CHR 0xC3, CHR 0xA5, CHR 0xC2, CHR 0xB0, CHR 0xC3, CHR 0x94, CHR 0xE2, CHR 0x88, CHR 0x8F, CHR 0xC3, CHR 0xA8]"

definition glyph_degree :: string where
  "glyph_degree = [CHR 0xC2, CHR 0xAC, CHR 0xE2, CHR 0x88, CHR 0x9E]"

definition glyph_cloud :: string where
  "glyph_cloud = [CHR 0xE2, CHR 0x80, CHR 0x9A, CHR 0xC3, CHR 0xB2, CHR 0xC3, CHR 0x85, CHR 0xC3, CHR 0x94, CHR 0xE2, CHR 0x88, CHR 0x8F, CHR 0xC3, CHR 0xA8]"

definition glyph_droplet :: string where
  "glyph_droplet = [CHR 0xEF, CHR 0xA3, CHR 0xBF, CHR 0xC3, CHR 0xBC, CHR 0xC3, CHR 0xAD, CHR 0xC3, CHR 0x9F]"

definition glyph_rain_cloud :: string where
  "glyph_rain_cloud = [CHR 0xEF, CHR 0xA3, CHR 0xBF, CHR 0xC3, CHR 0xBC, CHR 0xC3, CHR 0xA5, CHR 0xC3, CHR 0x9F, CHR 0xC3, CHR 0x94, CHR 0xE2, CHR 0x88, CHR 0x8F, CHR 0xC3, CHR 0xA8]"

definition glyph_sun :: string where
  "glyph_sun = [CHR 0xE2, CHR 0x80, CHR 0x9A, CHR 0xC3, CHR 0xB2, CHR 0xC3, CHR 0x84, CHR 0xC3, CHR 0x94, CHR 0xE2, CHR 0x88, CHR 0x8F, CHR 0xC3, CHR 0xA8]"

definition glyph_coat :: string where
  "glyph_coat = [CHR 0xEF, CHR 0xA3, CHR 0xBF, CHR 0xC3, CHR 0xBC, CHR 0xC3, CHR 0x9F, CHR 0xE2, CHR 0x80, CHR 0xA2]"

definition glyph_sparkles :: string where
  "glyph_sparkles = [CHR 0xE2, CHR 0x80, CHR 0x9A, CHR 0xC3, CHR 0xBA, CHR 0xC2, CHR 0xAE]"

definition glyph_check :: string where
  "glyph_check = [CHR 0xE2, CHR 0x80, CHR 0x9A, CHR 0xC3, CHR 0xBA, CHR 0xC3, CHR 0x96]"

definition glyph_cross :: string where
  "glyph_cross = [CHR 0xE2, CHR 0x80, CHR 0x9A, CHR 0xC3, CHR 0xB9, CHR 0xC3, CHR 0xA5]"

definition glyph_clock :: string where
  "glyph_clock = [CHR 0xE2, CHR 0x80, CHR 0x9A, CHR 0xC3, CHR 0xA8, CHR 0xE2, CHR 0x88, CHR 0x9E]"

definition glyph_bullet :: string where
  "glyph_bullet = [CHR 0xE2, CHR 0x80, CHR 0x9A, CHR 0xC3, CHR 0x84, CHR 0xC2, CHR 0xA2]"

definition glyph_wave :: string where
  "glyph_wave = [CHR 0xEF, CHR 0xA3, CHR 0xBF, CHR 0xC3, CHR 0xBC, CHR 0xC3, CHR 0xAB, CHR 0xC3, CHR 0xA3]"

definition glyph_calendar :: string where
  "glyph_calendar = [CHR 0xEF, CHR 0xA3, CHR 0xBF, CHR 0xC3, CHR 0xBC, CHR 0xC3, CHR 0xAC, CHR 0xC3, CHR 0x96]"

definition glyph_smile :: string where
  "glyph_smile = [CHR 0xEF, CHR 0xA3, CHR 0xBF, CHR 0xC3, CHR 0xBC, CHR 0xC3, CHR 0xB2, CHR 0xC3, CHR 0xA4]"

definition glyph_robot :: string where
  "glyph_robot = [CHR 0xEF, CHR 0xA3, CHR 0xBF, CHR 0xC3, CHR 0xBC, CHR 0xC2, CHR 0xA7, CHR 0xC3, CHR 0xB1]"

section \<open>LangGraph agent nodes\<close>

text \<open>
  A node takes the state and returns the updated state with the collaborator calls it made,
  or the exception it raised.
\<close>

type_synonym node_result = "py_error + agent_state \<times> call list"

text \<open>\<^verbatim>\<open>state["intent"].location or "Singapore"\<close>: \<^verbatim>\<open>None\<close> and the empty string are falsy.\<close>

definition location_or_default :: "intent_extraction \<Rightarrow> string" where
  "location_or_default i =
     (case location i of None \<Rightarrow> ''Singapore'' | Some l \<Rightarrow> if l = [] then ''Singapore'' else l)"

text \<open>\<^verbatim>\<open>async def extract_intent_node(state)\<close>\<close>

definition extract_intent_node :: "env \<Rightarrow> agent_state \<Rightarrow> node_result" where
  "extract_intent_node e state =
     Inr (state\<lparr>intent := Some (extract_intent e (user_message state))\<rparr>,
          [Gemini_call (user_message state)])"

text \<open>\<^verbatim>\<open>async def check_weather_node(state)\<close>\<close>

definition check_weather_node :: "env \<Rightarrow> agent_state \<Rightarrow> node_result" where
  "check_weather_node e state =
     (case intent state of
        None \<Rightarrow> Inr (state\<lparr>weather := None\<rparr>, [])
      | Some i \<Rightarrow>
          Inr (state\<lparr>weather := Some (get_weather_forecast e (datetime_str i) (location_or_default i))\<rparr>,
               [Weather_call (datetime_str i) (location_or_default i)]))"

text \<open>
  \<^verbatim>\<open>async def weather_query_node(state)\<close>. The advice is chosen by the \<^verbatim>\<open>if\<close>/\<^verbatim>\<open>elif\<close> chain;
  \<^verbatim>\<open>if weather.feels_like\<close> is false for \<^verbatim>\<open>None\<close> and for \<^verbatim>\<open>0.0\<close>.
\<close>

definition advice_umbrella :: string where
  "advice_umbrella =
     ''\<newline>'' @ glyph_rain_cloud @ '' **Advice**: It's rainy - bring an umbrella!''"

definition advice_heat :: string where
  "advice_heat = ''\<newline>'' @ glyph_sun @ '' **Advice**: It's quite hot - stay hydrated!''"

definition advice_cold :: string where
  "advice_cold =
     ''\<newline>'' @ glyph_coat @ '' **Advice**: It's cool - consider bringing a jacket!''"

definition advice_neutral :: string where
  "advice_neutral =
     ''\<newline>'' @ glyph_sparkles @ '' **Advice**: Great weather for outdoor activities!''"

definition weather_advice :: "weather_data \<Rightarrow> string" where
  "weather_advice w =
     (if is_rainy w then advice_umbrella
      else if temperature w > 30 then advice_heat
      else if temperature w < 20 then advice_cold
      else advice_neutral)"

definition weather_report :: "env \<Rightarrow> string \<Rightarrow> weather_data \<Rightarrow> string" where
  "weather_report e loc w =
     glyph_sun_cloud @ '' **Weather for '' @ title loc @ ''**\<newline>\<newline>''
     @ glyph_thermometer @ '' **Temperature**: '' @ str_float e (temperature w) @ glyph_degree
       @ ''C''
     @ (case feels_like w of
          None \<Rightarrow> []
        | Some f \<Rightarrow>
            if f \<noteq> 0 then '' (feels like '' @ str_float e f @ glyph_degree @ ''C)''
            else [])
     @ ''\<newline>'' @ glyph_cloud @ '' **Conditions**: '' @ title (description w)
       @ ''\<newline>''
     @ glyph_droplet @ '' **Humidity**: '' @ str_int (humidity w) @ ''%\<newline>''"

definition weather_query_node :: "env \<Rightarrow> agent_state \<Rightarrow> node_result" where
  "weather_query_node e state =
     (case intent state of
        None \<Rightarrow>
          Inr (state\<lparr>response_message :=
                 ''I couldn't understand your weather query. Please try again.''\<rparr>, [])
      | Some i \<Rightarrow>
          (let loc = location_or_default i;
               w = get_weather_forecast e (datetime_str i) loc
           in Inr (state\<lparr>weather := Some w,
                          response_message := weather_report e loc w @ weather_advice w\<rparr>,
                   [Weather_call (datetime_str i) loc])))"

text \<open>\<^verbatim>\<open>async def create_calendar_event_node(state)\<close>\<close>

definition msg_event_created :: "string \<Rightarrow> string \<Rightarrow> string" where
  "msg_event_created act formatted_time =
     glyph_check @ '' Great! I've scheduled '' @ [CHR 0x27] @ act @ [CHR 0x27] @ '' for ''
       @ formatted_time @ ''. The weather looks good!''"

definition msg_event_failed :: string where
  "msg_event_failed =
     glyph_cross @ '' Sorry, I couldn't create the calendar event. Please try again.''"

definition create_calendar_event_node :: "env \<Rightarrow> agent_state \<Rightarrow> node_result" where
  "create_calendar_event_node e state =
     (let success = create_event e (intent state);
          state1 = state\<lparr>calendar_event_created := success\<rparr>
      in if success then
           (case intent state of
              None \<Rightarrow> Inl AttributeError
            | Some i \<Rightarrow>
                Inr (state1\<lparr>response_message :=
                       msg_event_created (activity i)
                         (format_datetime_human_readable (datetime_str i))\<rparr>,
                     [Calendar_call (intent state)]))
         else Inr (state1\<lparr>response_message := msg_event_failed\<rparr>,
                   [Calendar_call (intent state)]))"

text \<open>\<^verbatim>\<open>async def request_time_clarification_node(state)\<close>\<close>

definition msg_time_question :: "string \<Rightarrow> string \<Rightarrow> string" where
  "msg_time_question act date_part =
     glyph_clock @ '' I see you want to '' @ act @ '' on '' @ date_part
       @ '', but what time would you prefer?\<newline>\<newline>For example:\<newline>''
       @ glyph_bullet @ '' '3pm'\<newline>'' @ glyph_bullet
       @ '' '2:30 in the afternoon'\<newline>'' @ glyph_bullet
       @ '' '9 in the morning'\<newline>'' @ glyph_bullet @ '' 'around lunchtime'' @ [CHR 0x27]"

definition request_time_clarification_node :: "env \<Rightarrow> agent_state \<Rightarrow> node_result" where
  "request_time_clarification_node e state =
     (case intent state of
        None \<Rightarrow> Inl AttributeError
      | Some i \<Rightarrow>
          Inr (state\<lparr>response_message :=
                       msg_time_question (activity i)
                         (format_datetime_human_readable (datetime_str i)),
                     needs_clarification := True\<rparr>, []))"

text \<open>\<^verbatim>\<open>async def casual_conversation_node(state)\<close>\<close>

definition msg_greeting :: string where
  "msg_greeting =
     ''Hello! '' @ glyph_wave
       @ '' I'm your AI scheduling assistant. I can help you:\<newline>\<newline>''
       @ glyph_calendar @ '' **Schedule activities** - Just tell me what you want to do ''
       @ ''and when!\<newline>'' @ glyph_sun_cloud
       @ '' **Check weather** - Ask about weather for any location\<newline>\<newline>**Examples:**\<newline>''
       @ glyph_bullet @ '' 'I want to go for a run tomorrow at 3pm'\<newline>'' @ glyph_bullet
       @ '' 'Schedule a meeting this Friday at 2pm'\<newline>'' @ glyph_bullet
       @ '' 'What's the weather like tomorrow?'\<newline>\<newline>How ''
       @ ''can I help you today?''"

definition msg_doing_great :: string where
  "msg_doing_great =
     ''I'm doing great, thank you! '' @ glyph_smile
       @ '' I'm here and ready to help you schedule activities and check ''
       @ ''the weather. What would you like to plan today?''"

definition msg_welcome :: string where
  "msg_welcome =
     ''You're very welcome! '' @ glyph_smile
       @ '' Feel free to ask me anytime if you need help scheduling activities ''
       @ ''or checking the weather!''"

definition msg_generic_casual :: string where
  "msg_generic_casual =
     ''I'm your AI scheduling assistant! '' @ glyph_robot
       @ '' I can help you schedule activities and check weather forecasts.\<newline>\<newline>**Try ''
       @ ''asking me:**\<newline>'' @ glyph_bullet
       @ '' 'Schedule a workout tomorrow at 6pm'\<newline>'' @ glyph_bullet
       @ '' 'What's the weather like this weekend?'\<newline>'' @ glyph_bullet
       @ '' 'I want to have a picnic on Saturday'\<newline>\<newline>What ''
       @ ''would you like to plan?''"

definition casual_conversation_node :: "env \<Rightarrow> agent_state \<Rightarrow> node_result" where
  "casual_conversation_node e state =
     (let user_message_lower = lower (user_message state)
      in Inr (state\<lparr>response_message :=
                 (if any_in [''hello'', ''hi'', ''hey'', ''good morning'', ''good afternoon'',
                             ''good evening''] user_message_lower
                  then msg_greeting
                  else if any_in [''how are you'', ''what's up'',
                                  ''how's it going''] user_message_lower
                  then msg_doing_great
                  else if any_in [''thank'', ''thanks'', ''appreciate''] user_message_lower
                  then msg_welcome
                  else msg_generic_casual)\<rparr>, []))"

text \<open>\<^verbatim>\<open>async def request_clarification_node(state)\<close>\<close>

definition msg_unclear_intent :: string where
  "msg_unclear_intent =
     ''I'm not sure I understood what you'd like to do. Could you please ''
       @ ''be more specific?\<newline>\<newline>'' @ glyph_calendar
       @ '' **For scheduling:**\<newline>'' @ glyph_bullet
       @ '' 'I want to go for a run at 4pm this Saturday'\<newline>'' @ glyph_bullet
       @ '' 'Schedule a picnic tomorrow at 2pm'\<newline>'' @ glyph_bullet
       @ '' 'Plan a bike ride next Tuesday morning'\<newline>\<newline>'' @ glyph_sun_cloud
       @ '' **For weather queries:**\<newline>'' @ glyph_bullet
       @ '' 'What's the weather like tomorrow?'\<newline>'' @ glyph_bullet
       @ '' 'How's the weather this Saturday 3pm?'' @ [CHR 0x27]"

definition msg_rainy :: "string \<Rightarrow> string \<Rightarrow> string \<Rightarrow> string" where
  "msg_rainy weather_desc act formatted_time =
     glyph_rain_cloud @ '' The weather forecast shows '' @ weather_desc
       @ '' for your planned '' @ act @ '' on '' @ formatted_time
       @ ''. Would you like to:\<newline>\<newline>1. Proceed anyway\<newline>2. ''
       @ ''Reschedule to a different time\<newline>3. Cancel the activity\<newline>\<newline>Please ''
       @ ''let me know what you'd prefer!''"

definition request_clarification_node :: "env \<Rightarrow> agent_state \<Rightarrow> node_result" where
  "request_clarification_node e state =
     Inr (state\<lparr>response_message :=
                 (case intent state of
                    None \<Rightarrow> msg_unclear_intent
                  | Some i \<Rightarrow>
                      if confidence i \<le> 0.5 \<or> activity i = ''unknown'' then msg_unclear_intent
                      else msg_rainy
                             (case weather state of Some w \<Rightarrow> description w | None \<Rightarrow> ''rainy'')
                             (activity i)
                             (format_datetime_human_readable (datetime_str i))),
               needs_clarification := True\<rparr>, [])"

section \<open>Routing logic\<close>

text \<open>
  The routers return the name of the next node; the names are the keys of the conditional
  edges of \<^verbatim>\<open>create_agent_workflow\<close>.
\<close>

datatype node =
  Extract_intent
  | Check_weather
  | Weather_query
  | Create_event
  | Request_time_clarification
  | Request_clarification
  | Casual_conversation

text \<open>
  \<^verbatim>\<open>def should_check_weather(state)\<close>. An instance of a pydantic model is always truthy, so
  \<^verbatim>\<open>if state["intent"]\<close> tests for \<^verbatim>\<open>None\<close> only.
\<close>

definition should_check_weather :: "agent_state \<Rightarrow> node" where
  "should_check_weather state =
     (case intent state of
        None \<Rightarrow> Request_clarification
      | Some i \<Rightarrow>
          if activity i = ''casual conversation'' \<and> confidence i \<le> 0.1
          then Casual_conversation
          else if confidence i > 0.5 \<and> activity i \<notin> set [''unknown'', ''casual conversation'']
          then (if is_weather_query i then Weather_query
                else if \<not> has_specific_time i then Request_time_clarification
                else Check_weather)
          else Request_clarification)"

text \<open>\<^verbatim>\<open>def should_create_event(state)\<close>\<close>

definition should_create_event :: "agent_state \<Rightarrow> node" where
  "should_create_event state =
     (case weather state of
        Some w \<Rightarrow> if \<not> is_rainy w then Create_event else Request_clarification
      | None \<Rightarrow> Request_clarification)"

text \<open>
  The routing table of section 4.1 of the specification, written from its words, to be
  compared with \<^const>\<open>should_check_weather\<close>.
\<close>

datatype route =
  CASUAL | WEATHER_QUERY | TIME_CLARIFICATION | CHECK_WEATHER | NEEDS_CLARIFICATION | CREATE_EVENT

fun route_of_node :: "node \<Rightarrow> route option" where
  "route_of_node Casual_conversation = Some CASUAL"
| "route_of_node Weather_query = Some WEATHER_QUERY"
| "route_of_node Request_time_clarification = Some TIME_CLARIFICATION"
| "route_of_node Check_weather = Some CHECK_WEATHER"
| "route_of_node Request_clarification = Some NEEDS_CLARIFICATION"
| "route_of_node Create_event = Some CREATE_EVENT"
| "route_of_node Extract_intent = None"

fun routeAfterExtraction :: "intent_extraction option \<Rightarrow> route" where
  "routeAfterExtraction None = NEEDS_CLARIFICATION"
| "routeAfterExtraction (Some i) =
     (if activity i = ''casual conversation'' \<and> confidence i \<le> 0.1 then CASUAL
      else if confidence i > 0.5 \<and> activity i \<notin> {''unknown'', ''casual conversation''} then
        (if is_weather_query i then WEATHER_QUERY
         else if \<not> has_specific_time i then TIME_CLARIFICATION
         else CHECK_WEATHER)
      else NEEDS_CLARIFICATION)"

section \<open>LangGraph workflow\<close>

text \<open>
  \<^verbatim>\<open>def create_agent_workflow()\<close>: the node functions, the conditional edges after
  \<^verbatim>\<open>extract_intent\<close> and \<^verbatim>\<open>check_weather\<close>, and the edges to \<^verbatim>\<open>END\<close> (\<^verbatim>\<open>None\<close>) of the
  other nodes.
\<close>

fun run_node :: "env \<Rightarrow> node \<Rightarrow> agent_state \<Rightarrow> node_result" where
  "run_node e Extract_intent = extract_intent_node e"
| "run_node e Check_weather = check_weather_node e"
| "run_node e Weather_query = weather_query_node e"
| "run_node e Create_event = create_calendar_event_node e"
| "run_node e Request_time_clarification = request_time_clarification_node e"
| "run_node e Request_clarification = request_clarification_node e"
| "run_node e Casual_conversation = casual_conversation_node e"

fun next_node :: "node \<Rightarrow> agent_state \<Rightarrow> node option" where
  "next_node Extract_intent state = Some (should_check_weather state)"
| "next_node Check_weather state = Some (should_create_event state)"
| "next_node Create_event state = None"
| "next_node Weather_query state = None"
| "next_node Request_time_clarification state = None"
| "next_node Request_clarification state = None"
| "next_node Casual_conversation state = None"

text \<open>
  A run of the compiled graph from a node: the final state, the nodes visited in order and
  the collaborator calls made, or the exception of the node that raised.
\<close>

record run_result =
  final :: agent_state
  visited :: "node list"
  calls :: "call list"

fun rank :: "node \<Rightarrow> nat" where
  "rank Extract_intent = 2"
| "rank Check_weather = 1"
| "rank n = 0"

function run_from :: "env \<Rightarrow> node \<Rightarrow> agent_state \<Rightarrow> py_error + run_result" where
  "run_from e n state =
     (case run_node e n state of
        Inl err \<Rightarrow> Inl err
      | Inr (state1, cs) \<Rightarrow>
          (case next_node n state1 of
             None \<Rightarrow> Inr \<lparr>final = state1, visited = [n], calls = cs\<rparr>
           | Some n1 \<Rightarrow>
               (case run_from e n1 state1 of
                  Inl err \<Rightarrow> Inl err
                | Inr r \<Rightarrow> Inr (r\<lparr>visited := n # visited r, calls := cs @ calls r\<rparr>))))"
  by pat_completeness auto
termination
proof (relation "measure (\<lambda>(e, n, state). rank n)")
  show "wf (measure (\<lambda>(e, n, state). rank n))" by simp
next
  fix e :: env and n :: node and state state1 :: agent_state and x cs n1
  assume "next_node n state1 = Some n1"
  then have "rank n1 < rank n"
    by (cases n)
       (auto simp: should_check_weather_def should_create_event_def
             split: option.splits if_splits)
  then show "((e, n1, state1), (e, n, state)) \<in> measure (\<lambda>(e, n, state). rank n)"
    by simp
qed

declare run_from.simps [simp del]

text \<open>\<^verbatim>\<open>agent_workflow.ainvoke(initial_state)\<close>: the entry point is \<^verbatim>\<open>extract_intent\<close>.\<close>

definition ainvoke :: "env \<Rightarrow> agent_state \<Rightarrow> py_error + run_result" where
  "ainvoke e initial_state = run_from e Extract_intent initial_state"

section \<open>Telegram bot\<close>

text \<open>
  An entry of \<^verbatim>\<open>self.conversation_context\<close>: the dictionary stored for a chat. The key
  \<^verbatim>\<open>"weather"\<close> is present for a weather clarification only. The dictionary of the contexts
  is the list of its items in insertion order.
\<close>

record pending =
  original_intent :: "intent_extraction option"
  pending_weather :: "weather_data option"
  waiting_for :: string
  timestamp :: real

type_synonym contexts = "(int \<times> pending) list"

text \<open>
  The readings of the clock during one handling cycle: \<^verbatim>\<open>time.time()\<close> in
  \<^verbatim>\<open>cleanup_old_contexts\<close>, \<^verbatim>\<open>time.time()\<close> when a context is stored, and
  \<^verbatim>\<open>datetime.now().date()\<close>.
\<close>

record clock =
  now_cleanup :: real
  now_store :: real
  today :: "nat \<times> nat \<times> nat"

text \<open>
  What a handler did: the contexts afterwards, the texts sent with \<^verbatim>\<open>reply_text\<close>, the
  collaborator calls, and the exception that left the handler, if any.
\<close>

record bot_result =
  contexts_after :: contexts
  replies :: "string list"
  made_calls :: "call list"
  raised :: "py_error option"

text \<open>
  The \<^verbatim>\<open>AgentState(...)\<close> the handlers build before a run of the workflow: the message, the
  chat and the intent vary, the other fields are fixed.
\<close>

definition initial_state :: "string \<Rightarrow> int \<Rightarrow> intent_extraction option \<Rightarrow> agent_state" where
  "initial_state msg chat_id i =
     \<lparr>user_message = msg, telegram_chat_id = chat_id, intent = i, weather = None,
      calendar_event_created = False, response_message = [], needs_clarification = False\<rparr>"

text \<open>\<^verbatim>\<open>def cleanup_old_contexts(self)\<close>: the first loop collects, the second deletes.\<close>

definition expired_chats :: "real \<Rightarrow> contexts \<Rightarrow> int list" where
  "expired_chats current_time ctxs =
     map fst (filter (\<lambda>(chat_id, c). current_time - timestamp c > 600) ctxs)"

definition cleanup_old_contexts :: "real \<Rightarrow> contexts \<Rightarrow> contexts" where
  "cleanup_old_contexts current_time ctxs =
     fold (\<lambda>chat_id m. AList.delete chat_id m) (expired_chats current_time ctxs) ctxs"

text \<open>\<^verbatim>\<open>async def handle_weather_clarification_response(self, update, user_message, chat_id, context)\<close>\<close>

definition msg_scheduled_despite :: "string \<Rightarrow> string \<Rightarrow> string" where
  "msg_scheduled_despite act formatted_time =
     glyph_check @ '' Great! I've scheduled '' @ [CHR 0x27] @ act @ [CHR 0x27] @ '' for ''
       @ formatted_time @ '' despite the weather. Stay safe!''"

definition msg_reschedule :: string where
  "msg_reschedule =
     ''I'd be happy to help you reschedule! Please tell me when you'd ''
       @ ''prefer to do this activity instead.''"

definition msg_cancelled :: "string \<Rightarrow> string" where
  "msg_cancelled act =
     ''No problem! I've cancelled your '' @ act
       @ '' plan. Let me know if you'd like to schedule something else!''"

definition msg_choose :: string where
  "msg_choose =
     ''I didn't quite understand. Please choose:\<newline>\<newline>1. ''
       @ ''Proceed anyway\<newline>2. Reschedule to a different time\<newline>3. ''
       @ ''Cancel the activity\<newline>\<newline>Or just type 'proceed', ''
       @ '''reschedule', or 'cancel'.''"

definition proceed_words :: "string list" where
  "proceed_words = [''1'', ''proceed'', ''yes'', ''continue'', ''anyway'']"

definition reschedule_words :: "string list" where
  "reschedule_words = [''2'', ''reschedule'', ''different'', ''later'', ''change'']"

definition cancel_words :: "string list" where
  "cancel_words = [''3'', ''cancel'', ''no'', ''don't'', ''skip'']"

definition handle_weather_clarification_response ::
  "env \<Rightarrow> contexts \<Rightarrow> string \<Rightarrow> int \<Rightarrow> pending \<Rightarrow> bot_result" where
  "handle_weather_clarification_response e ctxs user_msg chat_id ctx =
     (let user_message_lower = lower user_msg
      in if any_in proceed_words user_message_lower then
           (let success = create_event e (original_intent ctx)
            in if success then
                 (case original_intent ctx of
                    None \<Rightarrow>
                      \<lparr>contexts_after = ctxs, replies = [],
                       made_calls = [Calendar_call (original_intent ctx)],
                       raised = Some AttributeError\<rparr>
                  | Some i \<Rightarrow>
                      \<lparr>contexts_after = AList.delete chat_id ctxs,
                       replies = [msg_scheduled_despite (activity i)
                                    (format_datetime_human_readable (datetime_str i))],
                       made_calls = [Calendar_call (original_intent ctx)], raised = None\<rparr>)
               else
                 \<lparr>contexts_after = AList.delete chat_id ctxs, replies = [msg_event_failed],
                  made_calls = [Calendar_call (original_intent ctx)], raised = None\<rparr>)
         else if any_in reschedule_words user_message_lower then
           \<lparr>contexts_after = AList.delete chat_id ctxs, replies = [msg_reschedule],
            made_calls = [], raised = None\<rparr>
         else if any_in cancel_words user_message_lower then
           (case original_intent ctx of
              None \<Rightarrow>
                \<lparr>contexts_after = ctxs, replies = [], made_calls = [],
                 raised = Some AttributeError\<rparr>
            | Some i \<Rightarrow>
                \<lparr>contexts_after = AList.delete chat_id ctxs, replies = [msg_cancelled (activity i)],
                 made_calls = [], raised = None\<rparr>)
         else
           \<lparr>contexts_after = ctxs, replies = [msg_choose], made_calls = [], raised = None\<rparr>)"

text \<open>\<^verbatim>\<open>async def handle_time_clarification_response(self, update, user_message, chat_id, context)\<close>\<close>

definition msg_time_not_understood :: string where
  "msg_time_not_understood =
     ''I couldn't understand the time. Could you please specify a time? ''
       @ ''For example:\<newline>'' @ glyph_bullet @ '' '3pm'\<newline>'' @ glyph_bullet
       @ '' '2:30 in the afternoon'\<newline>'' @ glyph_bullet @ '' '9 in the morning''
       @ [CHR 0x27]"

definition msg_time_trouble :: string where
  "msg_time_trouble =
     ''Sorry, I had trouble understanding the time. Could you please '' @ ''try again?''"

text \<open>The word for the day of the original date, relative to today.\<close>

definition date_reference :: "nat \<times> nat \<times> nat \<Rightarrow> nat \<times> nat \<times> nat \<Rightarrow> string" where
  "date_reference original_date_only tday =
     (if original_date_only = tday then ''today''
      else if days_between original_date_only tday = 1 then ''tomorrow''
      else if days_between original_date_only tday = - 1 then ''yesterday''
      else weekday_name original_date_only)"

definition combined_message :: "intent_extraction \<Rightarrow> string \<Rightarrow> string \<Rightarrow> string" where
  "combined_message original date_ref user_msg =
     ''I want to '' @ activity original @ '' '' @ date_ref @ '' at '' @ user_msg"

text \<open>
  The correction of the date: when the date of the new intent is not the original date, its
  \<^verbatim>\<open>datetime_str\<close> becomes the original \<^verbatim>\<open>datetime\<close> with the new hour and minute.
\<close>

definition corrected_intent :: "datetime \<Rightarrow> datetime \<Rightarrow> intent_extraction \<Rightarrow> intent_extraction" where
  "corrected_intent original_date updated_datetime updated_intent =
     (if date updated_datetime \<noteq> date original_date
      then updated_intent\<lparr>datetime_str :=
             isoformat (original_date\<lparr>hour := hour updated_datetime,
                                       minute := minute updated_datetime,
                                       second := 0, microsecond := 0\<rparr>)\<rparr>
      else updated_intent)"

definition handle_time_clarification_response ::
  "env \<Rightarrow> clock \<Rightarrow> contexts \<Rightarrow> string \<Rightarrow> int \<Rightarrow> pending \<Rightarrow> bot_result" where
  "handle_time_clarification_response e clk ctxs user_msg chat_id ctx =
     (case original_intent ctx of
        None \<Rightarrow>
          \<lparr>contexts_after = ctxs, replies = [], made_calls = [], raised = Some AttributeError\<rparr>
      | Some original \<Rightarrow>
        (case fromisoformat (replace (datetime_str original) ''Z'' ''+00:00'') of
           None \<Rightarrow>
             \<lparr>contexts_after = ctxs, replies = [], made_calls = [], raised = Some ValueError\<rparr>
         | Some original_date \<Rightarrow>
           (let msg = combined_message original
                        (date_reference (date original_date) (today clk)) user_msg;
                updated_intent = extract_intent e msg
            in if has_specific_time updated_intent \<and> confidence updated_intent > 0.7 then
                 (case fromisoformat (replace (datetime_str updated_intent) ''Z'' ''+00:00'') of
                    None \<Rightarrow>
                      \<lparr>contexts_after = ctxs, replies = [msg_time_trouble],
                       made_calls = [Gemini_call msg], raised = None\<rparr>
                  | Some updated_datetime \<Rightarrow>
                      (case ainvoke e
                              (initial_state msg chat_id
                                 (Some (corrected_intent original_date updated_datetime
                                          updated_intent))) of
                         Inl err \<Rightarrow>
                           \<lparr>contexts_after = ctxs, replies = [msg_time_trouble],
                            made_calls = [Gemini_call msg], raised = None\<rparr>
                       | Inr r \<Rightarrow>
                           \<lparr>contexts_after =
                              (if needs_clarification (final r)
                                  \<and> (case weather (final r) of
                                        Some w \<Rightarrow> is_rainy w
                                      | None \<Rightarrow> False)
                               then AList.update chat_id
                                      \<lparr>original_intent = intent (final r),
                                       pending_weather = weather (final r),
                                       waiting_for = ''weather_clarification'',
                                       timestamp = now_store clk\<rparr> ctxs
                               else AList.delete chat_id ctxs),
                            replies = [response_message (final r)],
                            made_calls = Gemini_call msg # calls r, raised = None\<rparr>))
               else
                 \<lparr>contexts_after = ctxs, replies = [msg_time_not_understood],
                  made_calls = [Gemini_call msg], raised = None\<rparr>)))"

text \<open>\<^verbatim>\<open>async def handle_clarification_response(self, update, user_message, chat_id)\<close>\<close>

definition handle_clarification_response ::
  "env \<Rightarrow> clock \<Rightarrow> contexts \<Rightarrow> string \<Rightarrow> int \<Rightarrow> bot_result" where
  "handle_clarification_response e clk ctxs user_msg chat_id =
     (case map_of ctxs chat_id of
        None \<Rightarrow> \<lparr>contexts_after = ctxs, replies = [], made_calls = [], raised = Some KeyError\<rparr>
      | Some ctx \<Rightarrow>
          if waiting_for ctx = ''time_clarification''
          then handle_time_clarification_response e clk ctxs user_msg chat_id ctx
          else if waiting_for ctx = ''weather_clarification''
          then handle_weather_clarification_response e ctxs user_msg chat_id ctx
          else \<lparr>contexts_after = ctxs, replies = [], made_calls = [], raised = None\<rparr>)"

text \<open>
  \<^verbatim>\<open>async def handle_message(self, update, context)\<close>. The update is the text of its message
  (\<^verbatim>\<open>None\<close> when there is no message or no text) and the id of its chat.
\<close>

definition scheduling_keywords :: "string list" where
  "scheduling_keywords =
     [''want'', ''schedule'', ''plan'', ''book'', ''at'', ''tomorrow'', ''today'', ''this'', ''next'']"

definition msg_error :: string where
  "msg_error =
     ''Sorry, I encountered an error. Please try again.''"

text \<open>The context stored after a run of the workflow, by the final state.\<close>

definition store_after_run :: "clock \<Rightarrow> int \<Rightarrow> agent_state \<Rightarrow> contexts \<Rightarrow> contexts" where
  "store_after_run clk chat_id final_state ctxs =
     (case intent final_state of
        None \<Rightarrow> ctxs
      | Some i \<Rightarrow>
          if needs_clarification final_state then
            (if confidence i > 0.5 \<and> \<not> has_specific_time i then
               AList.update chat_id
                 \<lparr>original_intent = intent final_state, pending_weather = None,
                  waiting_for = ''time_clarification'', timestamp = now_store clk\<rparr> ctxs
             else if confidence i > 0.5
                     \<and> (case weather final_state of Some w \<Rightarrow> is_rainy w | None \<Rightarrow> False) then
               AList.update chat_id
                 \<lparr>original_intent = intent final_state, pending_weather = weather final_state,
                  waiting_for = ''weather_clarification'', timestamp = now_store clk\<rparr> ctxs
             else ctxs)
          else ctxs)"

definition handle_message :: "env \<Rightarrow> clock \<Rightarrow> contexts \<Rightarrow> string option \<Rightarrow> int \<Rightarrow> bot_result" where
  "handle_message e clk ctxs message_text chat_id =
     (case message_text of
        None \<Rightarrow> \<lparr>contexts_after = ctxs, replies = [], made_calls = [], raised = None\<rparr>
      | Some t \<Rightarrow>
          if t = [] \<or> strip t = [] \<or> length (strip t) < 2 then
            \<lparr>contexts_after = ctxs, replies = [], made_calls = [], raised = None\<rparr>
          else
            (let user_msg = strip t;
                 ctxs1 = cleanup_old_contexts (now_cleanup clk) ctxs;
                 is_pending = (map_of ctxs1 chat_id \<noteq> None);
                 new_request = (any_in scheduling_keywords (lower user_msg)
                                \<and> length (split user_msg) > 3)
             in if is_pending \<and> \<not> new_request
                then handle_clarification_response e clk ctxs1 user_msg chat_id
                else
                  (let ctxs2 = (if is_pending then AList.delete chat_id ctxs1 else ctxs1)
                   in case ainvoke e (initial_state user_msg chat_id None) of
                        Inl err \<Rightarrow>
                          \<lparr>contexts_after = ctxs2, replies = [msg_error], made_calls = [],
                           raised = None\<rparr>
                      | Inr r \<Rightarrow>
                          \<lparr>contexts_after = store_after_run clk chat_id (final r) ctxs2,
                           replies = [response_message (final r)], made_calls = calls r,
                           raised = None\<rparr>)))"

section \<open>Sample inputs\<close>

text \<open>
  Concrete collaborators and intents, at which the theorems below are instantiated. The
  weather is the fallback observation of \<^verbatim>\<open>get_weather_forecast\<close> and a rainy one; the
  collaborators answer every call with the same intent, weather and success flag.
\<close>

definition fallback_weather :: weather_data where
  "fallback_weather =
     \<lparr>temperature = 25, description = ''clear sky'', is_rainy = False, humidity = 70,
      feels_like = Some 27\<rparr>"

definition rainy_weather :: weather_data where
  "rainy_weather =
     \<lparr>temperature = 24, description = ''light rain'', is_rainy = True, humidity = 90,
      feels_like = None\<rparr>"

definition sample_str_float :: "real \<Rightarrow> string" where
  "sample_str_float x =
     (if x = 25 then ''25.0'' else if x = 27 then ''27.0'' else if x = 24 then ''24.0''
      else if x = 30 then ''30.0'' else if x = 20 then ''20.0'' else ''nan'')"

definition const_env :: "intent_extraction \<Rightarrow> weather_data \<Rightarrow> bool \<Rightarrow> env" where
  "const_env i w ok =
     \<lparr>extract_intent = (\<lambda>msg. i), get_weather_forecast = (\<lambda>t loc. w),
      calendar_service = (\<lambda>x. ok), str_float = sample_str_float\<rparr>"

definition greeting_intent :: intent_extraction where
  "greeting_intent =
     \<lparr>activity = ''casual conversation'', datetime_str = ''2025-05-27T10:00:00'',
      location = None, confidence = 0, is_weather_query = False, has_specific_time = False\<rparr>"

definition unknown_intent :: "real \<Rightarrow> intent_extraction" where
  "unknown_intent c =
     \<lparr>activity = ''unknown'', datetime_str = ''2025-05-27T10:00:00'',
      location = None, confidence = c, is_weather_query = False, has_specific_time = False\<rparr>"

definition weather_query_intent :: intent_extraction where
  "weather_query_intent =
     \<lparr>activity = ''weather query'', datetime_str = ''2025-05-27T10:00:00'',
      location = None, confidence = 0.9, is_weather_query = True, has_specific_time = False\<rparr>"

definition run_intent :: "string \<Rightarrow> bool \<Rightarrow> intent_extraction" where
  "run_intent t specific =
     \<lparr>activity = ''run'', datetime_str = t, location = None, confidence = 0.9,
      is_weather_query = False, has_specific_time = specific\<rparr>"

definition pending_at :: "string \<Rightarrow> real \<Rightarrow> pending" where
  "pending_at kind t =
     \<lparr>original_intent = Some (run_intent ''2025-05-28T00:00:00'' False),
      pending_weather = (if kind = ''weather_clarification'' then Some rainy_weather else None),
      waiting_for = kind, timestamp = t\<rparr>"

definition sample_clock :: clock where
  "sample_clock = \<lparr>now_cleanup = 2000, now_store = 2003, today = (2025, 5, 27)\<rparr>"

section \<open>Unfolding a run\<close>

lemmas run_from_unfold =
  run_from.simps [of _ Extract_intent] run_from.simps [of _ Check_weather]
  run_from.simps [of _ Weather_query] run_from.simps [of _ Create_event]
  run_from.simps [of _ Request_time_clarification] run_from.simps [of _ Request_clarification]
  run_from.simps [of _ Casual_conversation]

section \<open>Properties of the routers\<close>

text \<open>
  C4: \<^verbatim>\<open>should_check_weather\<close> is a total function of the intent and computes exactly the
  routing table of the specification: an absent intent asks for clarification; casual
  conversation with confidence at most 0.1 is answered casually; confidence above 0.5 with
  an activity other than "unknown" and "casual conversation" goes to the weather query, the
  time clarification or the weather check; everything else asks for clarification.
\<close>

theorem should_check_weather_table:
  "route_of_node (should_check_weather state) = Some (routeAfterExtraction (intent state))"
  by (cases "intent state") (simp_all add: should_check_weather_def)

text \<open>
  C5: \<^verbatim>\<open>should_create_event\<close> returns \<^verbatim>\<open>create_event\<close> exactly when the weather is present
  and not rainy; with no weather it returns the clarification branch.
\<close>

theorem should_create_event_iff:
  "(should_create_event state = Create_event \<longleftrightarrow>
      (\<exists>w. weather state = Some w \<and> is_rainy w = False))
   \<and> (should_create_event state \<noteq> Create_event \<longleftrightarrow>
      should_create_event state = Request_clarification)
   \<and> (weather state = None \<longrightarrow> should_create_event state = Request_clarification)"
  by (cases "weather state") (simp_all add: should_create_event_def)

theorem should_create_event_iff_witness:
  "should_create_event
     \<lparr>user_message = ''run at 3pm'', telegram_chat_id = 7, intent = None, weather = None,
      calendar_event_created = False, response_message = [], needs_clarification = False\<rparr>
     = Request_clarification
   \<and> should_create_event
     \<lparr>user_message = ''run at 3pm'', telegram_chat_id = 7, intent = None,
      weather = Some \<lparr>temperature = 25, description = ''clear sky'', is_rainy = False,
                       humidity = 70, feels_like = Some 27\<rparr>,
      calendar_event_created = False, response_message = [], needs_clarification = False\<rparr>
     = Create_event"
proof -
  let ?s0 = "\<lparr>user_message = ''run at 3pm'', telegram_chat_id = 7, intent = None,
      weather = None, calendar_event_created = False, response_message = [],
      needs_clarification = False\<rparr>"
  let ?w = "\<lparr>temperature = 25, description = ''clear sky'', is_rainy = False,
      humidity = 70, feels_like = Some 27\<rparr>"
  let ?s1 = "?s0\<lparr>weather := Some ?w\<rparr>"
  have a: "should_create_event ?s0 = Request_clarification"
    using should_create_event_iff [of ?s0] by simp
  have b: "should_create_event ?s1 = Create_event"
    using should_create_event_iff [of ?s1] by simp
  from a b show ?thesis by simp
qed

section \<open>Properties of a run of the workflow\<close>

text \<open>
  C1, as amended: for every extracted intent with confidence at most 0.5 or activity
  "unknown", except casual conversation with confidence at most 0.1 (which the casual node
  answers), the run of the workflow returns, its last node is \<^verbatim>\<open>request_clarification\<close>, and
  the final state has \<^verbatim>\<open>needs_clarification = True\<close>.
\<close>

theorem unclear_intent_requests_clarification:
  assumes "confidence (extract_intent e (user_message st)) \<le> 0.5
           \<or> activity (extract_intent e (user_message st)) = ''unknown''"
    and "\<not> (activity (extract_intent e (user_message st)) = ''casual conversation''
            \<and> confidence (extract_intent e (user_message st)) \<le> 0.1)"
  shows "\<exists>r. ainvoke e st = Inr r \<and> visited r = [Extract_intent, Request_clarification]
           \<and> needs_clarification (final r) = True"
  using assms
  by (auto simp: ainvoke_def run_from_unfold extract_intent_node_def should_check_weather_def
        request_clarification_node_def)

theorem unclear_intent_requests_clarification_witness:
  "(confidence (extract_intent (const_env (unknown_intent 0) fallback_weather True) ''asdf'') \<le> 0.5
    \<or> activity (extract_intent (const_env (unknown_intent 0) fallback_weather True) ''asdf'')
        = ''unknown'')
   \<and> (\<exists>r. ainvoke (const_env (unknown_intent 0) fallback_weather True)
               (initial_state ''asdf'' 7 None) = Inr r
          \<and> visited r = [Extract_intent, Request_clarification]
          \<and> needs_clarification (final r) = True)"
  using unclear_intent_requests_clarification
          [of "const_env (unknown_intent 0) fallback_weather True" "initial_state ''asdf'' 7 None"]
  by (simp add: const_env_def unknown_intent_def initial_state_def)

text \<open>
  The claim as stated fails: the intent the extractor returns for a greeting (casual
  conversation, confidence 0) has confidence at most 0.5, and the run ends in the casual
  node with \<^verbatim>\<open>needs_clarification = False\<close>.
\<close>

theorem casual_intent_counterexample:
  "confidence (extract_intent (const_env greeting_intent fallback_weather True) ''hello'') \<le> 0.5
   \<and> ainvoke (const_env greeting_intent fallback_weather True) (initial_state ''hello'' 7 None)
     = Inr \<lparr>final = \<lparr>user_message = ''hello'', telegram_chat_id = 7,
                      intent = Some greeting_intent, weather = None,
                      calendar_event_created = False, response_message = msg_greeting,
                      needs_clarification = False\<rparr>,
            visited = [Extract_intent, Casual_conversation],
            calls = [Gemini_call ''hello'']\<rparr>"
  by (simp add: ainvoke_def run_from_unfold extract_intent_node_def should_check_weather_def
        casual_conversation_node_def const_env_def greeting_intent_def initial_state_def
        any_in_def lower_def lower_char_def)

text \<open>
  C6: when the extracted intent is a weather query, the run of the workflow returns, never
  visits \<^verbatim>\<open>create_event\<close> and makes no call of the calendar collaborator.
\<close>

theorem weather_query_never_calls_calendar:
  assumes "is_weather_query (extract_intent e (user_message st))"
  shows "\<exists>r. ainvoke e st = Inr r \<and> Create_event \<notin> set (visited r)
           \<and> \<not> list_ex is_calendar_call (calls r)"
  using assms
  by (auto simp: ainvoke_def run_from_unfold extract_intent_node_def should_check_weather_def
        request_clarification_node_def casual_conversation_node_def weather_query_node_def
        Let_def)

theorem weather_query_never_calls_calendar_witness:
  "is_weather_query
     (extract_intent (const_env weather_query_intent fallback_weather True)
        (user_message (initial_state ''what is the weather like?'' 7 None)))
   \<and> (\<exists>r. ainvoke (const_env weather_query_intent fallback_weather True)
               (initial_state ''what is the weather like?'' 7 None) = Inr r
          \<and> Create_event \<notin> set (visited r) \<and> \<not> list_ex is_calendar_call (calls r))"
proof -
  have h: "is_weather_query
     (extract_intent (const_env weather_query_intent fallback_weather True)
        (user_message (initial_state ''what is the weather like?'' 7 None)))"
    by (simp add: const_env_def weather_query_intent_def)
  from h weather_query_never_calls_calendar [OF h] show ?thesis by simp
qed

section \<open>Substring tests\<close>

lemma startswith_iff: "startswith s p \<longleftrightarrow> (\<exists>q. s = p @ q)"
  by (induction s p rule: startswith.induct) auto

lemma str_in_iff: "str_in sub s \<longleftrightarrow> (\<exists>p q. s = p @ sub @ q)"
proof (induction s)
  case Nil
  then show ?case by auto
next
  case (Cons c cs)
  show ?case
  proof
    assume "str_in sub (c # cs)"
    then consider "startswith (c # cs) sub" | "str_in sub cs" by auto
    then show "\<exists>p q. c # cs = p @ sub @ q"
    proof cases
      case 1
      then obtain q where "c # cs = sub @ q" by (auto simp: startswith_iff)
      then have "c # cs = [] @ sub @ q" by simp
      then show ?thesis by blast
    next
      case 2
      then obtain p q where "cs = p @ sub @ q" using Cons.IH by auto
      then have "c # cs = (c # p) @ sub @ q" by simp
      then show ?thesis by blast
    qed
  next
    assume "\<exists>p q. c # cs = p @ sub @ q"
    then obtain p q where pq: "c # cs = p @ sub @ q" by auto
    show "str_in sub (c # cs)"
    proof (cases p)
      case Nil
      with pq have "startswith (c # cs) sub" by (auto simp: startswith_iff)
      then show ?thesis by simp
    next
      case (Cons a p')
      with pq have "cs = p' @ sub @ q" by simp
      then have "str_in sub cs" using Cons.IH by blast
      then show ?thesis by simp
    qed
  qed
qed

lemma any_in_iff: "any_in ws s \<longleftrightarrow> (\<exists>w \<in> set ws. \<exists>p q. s = p @ w @ q)"
  by (simp add: any_in_def list_ex_iff str_in_iff)

section \<open>The expiry sweep\<close>

lemma fold_delete_restrict:
  "fold (\<lambda>k m. AList.delete k m) ks al = AList.restrict (- set ks) al"
proof (induction ks arbitrary: al)
  case Nil
  then show ?case by (simp add: AList.restrict_eq)
next
  case (Cons k ks)
  have "AList.restrict (- set ks) (AList.delete k al) = AList.restrict (- set (k # ks)) al"
    by (induction al) (auto simp: AList.restrict_eq AList.delete_eq)
  with Cons show ?case by simp
qed

lemma cleanup_restrict:
  "cleanup_old_contexts now ctxs = AList.restrict (- set (expired_chats now ctxs)) ctxs"
  by (simp add: cleanup_old_contexts_def fold_delete_restrict)

lemma expired_chats_iff:
  "k \<in> set (expired_chats now ctxs) \<longleftrightarrow> (\<exists>c. (k, c) \<in> set ctxs \<and> now - timestamp c > 600)"
  by (auto simp: expired_chats_def image_iff)

lemma expired_chats_cleanup: "expired_chats now (cleanup_old_contexts now ctxs) = []"
proof -
  have "\<not> (now - timestamp c > 600)" if "(k, c) \<in> set (cleanup_old_contexts now ctxs)" for k c
  proof
    assume old: "now - timestamp c > 600"
    from that have "(k, c) \<in> set ctxs" and "k \<notin> set (expired_chats now ctxs)"
      by (auto simp: cleanup_restrict AList.restrict_eq)
    with old show False by (auto simp: expired_chats_iff)
  qed
  then show ?thesis by (auto simp: expired_chats_def filter_empty_conv)
qed

lemma cleanup_idem:
  "cleanup_old_contexts now (cleanup_old_contexts now ctxs) = cleanup_old_contexts now ctxs"
  by (simp add: cleanup_old_contexts_def [of now "cleanup_old_contexts now ctxs"]
        expired_chats_cleanup)

lemma map_of_cleanup:
  assumes "distinct (map fst ctxs)"
  shows "map_of (cleanup_old_contexts now ctxs) k =
     (case map_of ctxs k of
        None \<Rightarrow> None
      | Some c \<Rightarrow> if now - timestamp c > 600 then None else Some c)"
proof (cases "map_of ctxs k")
  case None
  then show ?thesis by (simp add: cleanup_restrict restr_conv' restrict_map_def)
next
  case (Some c)
  with assms have "k \<in> set (expired_chats now ctxs) \<longleftrightarrow> now - timestamp c > 600"
    by (auto simp: expired_chats_iff dest: map_of_SomeD) (metis map_of_is_SomeI option.inject)+
  with Some show ?thesis by (simp add: cleanup_restrict restr_conv' restrict_map_def)
qed

lemma distinct_cleanup:
  "distinct (map fst ctxs) \<Longrightarrow> distinct (map fst (cleanup_old_contexts now ctxs))"
  by (simp add: cleanup_restrict distinct_restr)

text \<open>
  The contexts are a dictionary: the handlers keep the keys distinct, so the hypothesis of
  the theorem below holds of every state the bot reaches from the empty dictionary.
\<close>

lemma handle_message_distinct:
  assumes "distinct (map fst ctxs)"
  shows "distinct (map fst (contexts_after (handle_message e clk ctxs message_text chat_id)))"
proof -
  have c: "distinct (map fst (cleanup_old_contexts (now_cleanup clk) ctxs))"
    using assms by (rule distinct_cleanup)
  have w: "distinct (map fst (contexts_after
             (handle_weather_clarification_response e cs m chat_id ctx)))"
    if "distinct (map fst cs)" for cs m ctx
    using that
    by (simp add: handle_weather_clarification_response_def Let_def distinct_delete
          split: option.splits)
  have t: "distinct (map fst (contexts_after
             (handle_time_clarification_response e clk cs m chat_id ctx)))"
    if "distinct (map fst cs)" for cs m ctx
    using that
    by (simp add: handle_time_clarification_response_def Let_def distinct_delete
          distinct_update split: option.splits sum.splits)
  have s: "distinct (map fst (store_after_run clk chat_id st cs))"
    if "distinct (map fst cs)" for cs st
    using that by (simp add: store_after_run_def distinct_update split: option.splits)
  show ?thesis
    using assms c
    by (simp add: handle_message_def Let_def handle_clarification_response_def w t s
          distinct_delete split: option.splits sum.splits)
qed

lemma weather_reply_other_chats:
  "k \<noteq> chat_id \<Longrightarrow>
   map_of (contexts_after (handle_weather_clarification_response e ctxs m chat_id ctx)) k
     = map_of ctxs k"
  by (simp add: handle_weather_clarification_response_def Let_def split: option.splits)

lemma time_reply_other_chats:
  "k \<noteq> chat_id \<Longrightarrow>
   map_of (contexts_after (handle_time_clarification_response e clk ctxs m chat_id ctx)) k
     = map_of ctxs k"
  by (simp add: handle_time_clarification_response_def Let_def update_conv'
        split: option.splits sum.splits)

lemma store_after_run_other_chats:
  "k \<noteq> chat_id \<Longrightarrow> map_of (store_after_run clk chat_id s ctxs) k = map_of ctxs k"
  by (simp add: store_after_run_def update_conv' split: option.splits)

lemma handle_message_other_chats:
  assumes "\<not> (t = [] \<or> strip t = [] \<or> length (strip t) < 2)" and "k \<noteq> chat_id"
  shows "map_of (contexts_after (handle_message e clk ctxs (Some t) chat_id)) k
         = map_of (cleanup_old_contexts (now_cleanup clk) ctxs) k"
  using assms
  by (simp add: handle_message_def Let_def handle_clarification_response_def
        weather_reply_other_chats time_reply_other_chats store_after_run_other_chats
        split: option.splits sum.splits)

text \<open>
  C8: the sweep removes exactly the entries older than 600 seconds (an entry of age 600 or
  less stays as it is), and \<^verbatim>\<open>handle_message\<close> runs it before it looks at the contexts:
  handling a message of two characters or more gives the same result on the swept contexts,
  and the entry of another chat afterwards is its entry after the sweep.
\<close>

theorem cleanup_old_contexts_exact:
  assumes "distinct (map fst ctxs)"
  shows "map_of (cleanup_old_contexts now ctxs) k =
           (case map_of ctxs k of
              None \<Rightarrow> None
            | Some c \<Rightarrow> if now - timestamp c > 600 then None else Some c)
         \<and> (\<not> (t = [] \<or> strip t = [] \<or> length (strip t) < 2) \<longrightarrow>
              handle_message e clk ctxs (Some t) chat_id =
                handle_message e clk (cleanup_old_contexts (now_cleanup clk) ctxs) (Some t) chat_id
              \<and> (k \<noteq> chat_id \<longrightarrow>
                   map_of (contexts_after (handle_message e clk ctxs (Some t) chat_id)) k
                     = map_of (cleanup_old_contexts (now_cleanup clk) ctxs) k))"
proof (intro conjI impI)
  show "map_of (cleanup_old_contexts now ctxs) k =
           (case map_of ctxs k of
              None \<Rightarrow> None
            | Some c \<Rightarrow> if now - timestamp c > 600 then None else Some c)"
    using assms by (rule map_of_cleanup)
next
  assume "\<not> (t = [] \<or> strip t = [] \<or> length (strip t) < 2)"
  then show "handle_message e clk ctxs (Some t) chat_id =
      handle_message e clk (cleanup_old_contexts (now_cleanup clk) ctxs) (Some t) chat_id"
    by (simp add: handle_message_def cleanup_idem)
next
  assume "\<not> (t = [] \<or> strip t = [] \<or> length (strip t) < 2)" and "k \<noteq> chat_id"
  then show "map_of (contexts_after (handle_message e clk ctxs (Some t) chat_id)) k
      = map_of (cleanup_old_contexts (now_cleanup clk) ctxs) k"
    by (rule handle_message_other_chats)
qed

theorem cleanup_old_contexts_exact_witness:
  "distinct (map fst [(1::int, pending_at ''time_clarification'' 1399),
                      (2, pending_at ''time_clarification'' 1401),
                      (3, pending_at ''weather_clarification'' 1400)])
   \<and> map_of (cleanup_old_contexts 2000
        [(1, pending_at ''time_clarification'' 1399), (2, pending_at ''time_clarification'' 1401),
         (3, pending_at ''weather_clarification'' 1400)]) 1 = None
   \<and> map_of (cleanup_old_contexts 2000
        [(1, pending_at ''time_clarification'' 1399), (2, pending_at ''time_clarification'' 1401),
         (3, pending_at ''weather_clarification'' 1400)]) 2
       = Some (pending_at ''time_clarification'' 1401)
   \<and> map_of (cleanup_old_contexts 2000
        [(1, pending_at ''time_clarification'' 1399), (2, pending_at ''time_clarification'' 1401),
         (3, pending_at ''weather_clarification'' 1400)]) 3
       = Some (pending_at ''weather_clarification'' 1400)
   \<and> map_of (contexts_after (handle_message (const_env greeting_intent fallback_weather True)
        sample_clock
        [(1, pending_at ''time_clarification'' 1399), (2, pending_at ''time_clarification'' 1401),
         (3, pending_at ''weather_clarification'' 1400)] (Some ''hello'') 9)) 1 = None"
proof -
  let ?ctxs = "[(1::int, pending_at ''time_clarification'' 1399),
                (2, pending_at ''time_clarification'' 1401),
                (3, pending_at ''weather_clarification'' 1400)]"
  let ?e = "const_env greeting_intent fallback_weather True"
  have d: "distinct (map fst ?ctxs)" by simp
  have t: "\<not> (''hello'' = [] \<or> strip ''hello'' = [] \<or> length (strip ''hello'') < 2)"
    by (simp add: strip_def is_space_def)
  have n: "now_cleanup sample_clock = 2000" by (simp add: sample_clock_def)
  have ne: "(1::int) \<noteq> 9" by simp
  have k1: "map_of (cleanup_old_contexts 2000 ?ctxs) 1 = None"
    using cleanup_old_contexts_exact [OF d, of 2000 1] by (simp add: pending_at_def)
  have k2: "map_of (cleanup_old_contexts 2000 ?ctxs) 2 = Some (pending_at ''time_clarification'' 1401)"
    using cleanup_old_contexts_exact [OF d, of 2000 2] by (simp add: pending_at_def)
  have k3: "map_of (cleanup_old_contexts 2000 ?ctxs) 3
              = Some (pending_at ''weather_clarification'' 1400)"
    using cleanup_old_contexts_exact [OF d, of 2000 3] by (simp add: pending_at_def)
  have "map_of (contexts_after (handle_message ?e sample_clock ?ctxs (Some ''hello'') 9)) 1
          = map_of (cleanup_old_contexts (now_cleanup sample_clock) ?ctxs) 1"
    using conjunct2 [OF cleanup_old_contexts_exact [OF d, of 2000 1 "''hello''" ?e sample_clock 9]] t ne
    by blast
  then have h: "map_of (contexts_after (handle_message ?e sample_clock ?ctxs (Some ''hello'') 9)) 1
                  = map_of (cleanup_old_contexts 2000 ?ctxs) 1"
    unfolding n .
  from d k1 k2 k3 h show ?thesis by (simp only: simp_thms)
qed

section \<open>Replies to a weather clarification\<close>

text \<open>
  C10: a reply to a weather clarification is classified by testing the proceed words first,
  then the reschedule words, then the cancel words, each by substring containment in the
  lower-cased reply: a reply with a proceed word calls the calendar with the original
  intent whatever else it contains; without one, a reschedule word gives the reschedule
  answer; without either, a cancel word gives the cancellation; with none, the question is
  asked again and the contexts are kept. Containment is of substrings, so a word inside a
  longer word counts.
\<close>

theorem weather_reply_classified_in_order:
  "(any_in proceed_words (lower m) \<longrightarrow>
      made_calls (handle_weather_clarification_response e ctxs m chat_id ctx)
        = [Calendar_call (original_intent ctx)]
      \<and> (original_intent ctx = Some i \<longrightarrow>
           handle_weather_clarification_response e ctxs m chat_id ctx =
             \<lparr>contexts_after = AList.delete chat_id ctxs,
              replies = [if calendar_service e i
                         then msg_scheduled_despite (activity i)
                                (format_datetime_human_readable (datetime_str i))
                         else msg_event_failed],
              made_calls = [Calendar_call (Some i)], raised = None\<rparr>))
   \<and> (\<not> any_in proceed_words (lower m) \<and> any_in reschedule_words (lower m) \<longrightarrow>
        handle_weather_clarification_response e ctxs m chat_id ctx =
          \<lparr>contexts_after = AList.delete chat_id ctxs, replies = [msg_reschedule],
           made_calls = [], raised = None\<rparr>)
   \<and> (\<not> any_in proceed_words (lower m) \<and> \<not> any_in reschedule_words (lower m)
        \<and> any_in cancel_words (lower m) \<and> original_intent ctx = Some i \<longrightarrow>
        handle_weather_clarification_response e ctxs m chat_id ctx =
          \<lparr>contexts_after = AList.delete chat_id ctxs, replies = [msg_cancelled (activity i)],
           made_calls = [], raised = None\<rparr>)
   \<and> (\<not> any_in proceed_words (lower m) \<and> \<not> any_in reschedule_words (lower m)
        \<and> \<not> any_in cancel_words (lower m) \<longrightarrow>
        handle_weather_clarification_response e ctxs m chat_id ctx =
          \<lparr>contexts_after = ctxs, replies = [msg_choose], made_calls = [], raised = None\<rparr>)
   \<and> (any_in ws (lower m) \<longleftrightarrow> (\<exists>w \<in> set ws. \<exists>p q. lower m = p @ w @ q))"
proof -
  have sub: "any_in ws (lower m) \<longleftrightarrow> (\<exists>w \<in> set ws. \<exists>p q. lower m = p @ w @ q)"
    by (rule any_in_iff)
  show ?thesis
    unfolding sub [symmetric]
    by (cases "original_intent ctx")
       (simp_all add: handle_weather_clarification_response_def Let_def create_event_def)
qed

theorem weather_reply_classified_in_order_witness:
  "any_in proceed_words (lower ''Yes, cancel it'')
   \<and> any_in cancel_words (lower ''Yes, cancel it'')
   \<and> handle_weather_clarification_response (const_env greeting_intent rainy_weather True)
        [(7, pending_at ''weather_clarification'' 1400)] ''Yes, cancel it'' 7
        (pending_at ''weather_clarification'' 1400)
       = \<lparr>contexts_after = [],
          replies = [msg_scheduled_despite ''run'' ''28 May 2025''],
          made_calls = [Calendar_call (Some (run_intent ''2025-05-28T00:00:00'' False))],
          raised = None\<rparr>
   \<and> lower ''I KNOW'' = ''i '' @ ''k'' @ ''no'' @ ''w''
   \<and> handle_weather_clarification_response (const_env greeting_intent rainy_weather True)
        [(7, pending_at ''weather_clarification'' 1400)] ''I KNOW'' 7
        (pending_at ''weather_clarification'' 1400)
       = \<lparr>contexts_after = [], replies = [msg_cancelled ''run''], made_calls = [],
          raised = None\<rparr>"
proof -
  let ?e = "const_env greeting_intent rainy_weather True"
  let ?p = "pending_at ''weather_clarification'' 1400"
  let ?i = "run_intent ''2025-05-28T00:00:00'' False"
  have i: "original_intent ?p = Some ?i" by (simp add: pending_at_def)
  have y1: "any_in proceed_words (lower ''Yes, cancel it'')"
    by (simp add: any_in_def proceed_words_def lower_def lower_char_def)
  have y2: "any_in cancel_words (lower ''Yes, cancel it'')"
    by (simp add: any_in_def cancel_words_def lower_def lower_char_def)
  have ok: "calendar_service ?e ?i" by (simp add: const_env_def)
  have act: "activity ?i = ''run''" by (simp add: run_intent_def)
  have fmt: "format_datetime_human_readable (datetime_str ?i) = ''28 May 2025''"
    by code_simp
  have del: "AList.delete 7 [(7::int, ?p)] = []" by simp
  have k0: "lower ''I KNOW'' = ''i '' @ ''k'' @ ''no'' @ ''w''"
    by (simp add: lower_def lower_char_def)
  have k1: "\<not> any_in proceed_words (lower ''I KNOW'')"
    by (simp add: any_in_def proceed_words_def lower_def lower_char_def)
  have k2: "\<not> any_in reschedule_words (lower ''I KNOW'')"
    by (simp add: any_in_def reschedule_words_def lower_def lower_char_def)
  have k3: "any_in cancel_words (lower ''I KNOW'')"
    by (simp add: any_in_def cancel_words_def lower_def lower_char_def)
  note thm1 = weather_reply_classified_in_order
                [of "''Yes, cancel it''" ?e "[(7, ?p)]" 7 ?p ?i proceed_words]
  note thm2 = weather_reply_classified_in_order
                [of "''I KNOW''" ?e "[(7, ?p)]" 7 ?p ?i cancel_words]
  have r1: "handle_weather_clarification_response ?e [(7, ?p)] ''Yes, cancel it'' 7 ?p
       = \<lparr>contexts_after = [],
          replies = [msg_scheduled_despite ''run'' ''28 May 2025''],
          made_calls = [Calendar_call (Some ?i)], raised = None\<rparr>"
    using thm1 y1 i ok act fmt del by simp
  have r2: "handle_weather_clarification_response ?e [(7, ?p)] ''I KNOW'' 7 ?p
       = \<lparr>contexts_after = [], replies = [msg_cancelled ''run''], made_calls = [],
          raised = None\<rparr>"
    using thm2 k1 k2 k3 i act del by simp
  from y1 y2 r1 k0 r2 show ?thesis by (simp only: simp_thms)
qed

section \<open>Weather queries\<close>

lemma ainvoke_weather_query:
  assumes "is_weather_query (extract_intent e (user_message st))"
    and "confidence (extract_intent e (user_message st)) > 0.5"
    and "activity (extract_intent e (user_message st)) \<notin> {''unknown'', ''casual conversation''}"
  shows "ainvoke e st =
     Inr \<lparr>final = st\<lparr>intent := Some (extract_intent e (user_message st)),
                     weather := Some (get_weather_forecast e
                        (datetime_str (extract_intent e (user_message st)))
                        (location_or_default (extract_intent e (user_message st)))),
                     response_message :=
                       weather_report e (location_or_default (extract_intent e (user_message st)))
                         (get_weather_forecast e
                            (datetime_str (extract_intent e (user_message st)))
                            (location_or_default (extract_intent e (user_message st))))
                       @ weather_advice (get_weather_forecast e
                            (datetime_str (extract_intent e (user_message st)))
                            (location_or_default (extract_intent e (user_message st))))\<rparr>,
          visited = [Extract_intent, Weather_query],
          calls = [Gemini_call (user_message st),
                   Weather_call (datetime_str (extract_intent e (user_message st)))
                     (location_or_default (extract_intent e (user_message st)))]\<rparr>"
  using assms
  by (simp add: ainvoke_def run_from_unfold extract_intent_node_def should_check_weather_def
        weather_query_node_def Let_def)

lemma weather_report_contains:
  "str_in (str_float e (temperature w)) (weather_report e loc w @ a)"
  "str_in (title (description w)) (weather_report e loc w @ a)"
  "str_in (str_int (humidity w)) (weather_report e loc w @ a)"
proof -
  show "str_in (str_float e (temperature w)) (weather_report e loc w @ a)"
    unfolding str_in_iff weather_report_def
    by (rule exI [of _ "glyph_sun_cloud @ '' **Weather for '' @ title loc @ ''**\<newline>\<newline>''
          @ glyph_thermometer @ '' **Temperature**: ''"]) (simp add: append_eq_append_conv2)
  show "str_in (title (description w)) (weather_report e loc w @ a)"
    unfolding str_in_iff weather_report_def
    by (rule exI [of _ "glyph_sun_cloud @ '' **Weather for '' @ title loc @ ''**\<newline>\<newline>''
          @ glyph_thermometer @ '' **Temperature**: '' @ str_float e (temperature w)
          @ glyph_degree @ ''C''
          @ (case feels_like w of
               None \<Rightarrow> []
             | Some f \<Rightarrow>
                 if f \<noteq> 0 then '' (feels like '' @ str_float e f @ glyph_degree @ ''C)''
                 else [])
          @ ''\<newline>'' @ glyph_cloud @ '' **Conditions**: ''"]) simp
  show "str_in (str_int (humidity w)) (weather_report e loc w @ a)"
    unfolding str_in_iff weather_report_def
    by (rule exI [of _ "glyph_sun_cloud @ '' **Weather for '' @ title loc @ ''**\<newline>\<newline>''
          @ glyph_thermometer @ '' **Temperature**: '' @ str_float e (temperature w)
          @ glyph_degree @ ''C''
          @ (case feels_like w of
               None \<Rightarrow> []
             | Some f \<Rightarrow>
                 if f \<noteq> 0 then '' (feels like '' @ str_float e f @ glyph_degree @ ''C)''
                 else [])
          @ ''\<newline>'' @ glyph_cloud @ '' **Conditions**: '' @ title (description w)
          @ ''\<newline>'' @ glyph_droplet @ '' **Humidity**: ''"]) simp
qed

lemma weather_advice_cases:
  "weather_advice w \<in> set [advice_umbrella, advice_heat, advice_cold, advice_neutral]"
  by (simp add: weather_advice_def)

text \<open>
  C9: when the extracted intent is routed to the weather query (a weather query with
  confidence above 0.5 and an activity other than "unknown" and "casual conversation"), the
  run returns after \<^verbatim>\<open>weather_query\<close>; its response is the report, which contains the
  temperature, the title-cased condition and the humidity, followed by exactly one of the
  four advisory lines: the umbrella line when rainy, else the heat line above 30, else the
  cold line below 20, else the neutral line (so at exactly 30 and exactly 20). The run
  leaves \<^verbatim>\<open>needs_clarification\<close> as it was, and \<^verbatim>\<open>handle_message\<close>, which starts the run
  with \<^verbatim>\<open>needs_clarification = False\<close>, sends that response and leaves no pending entry
  for the chat.
\<close>

theorem weather_query_response:
  assumes "i = extract_intent e (user_message st)"
    and "w = get_weather_forecast e (datetime_str i) (location_or_default i)"
    and "is_weather_query i" and "confidence i > 0.5"
    and "activity i \<notin> {''unknown'', ''casual conversation''}"
  shows "\<exists>r. ainvoke e st = Inr r \<and> visited r = [Extract_intent, Weather_query]
           \<and> response_message (final r)
               = weather_report e (location_or_default i) w @ weather_advice w
           \<and> str_in (str_float e (temperature w)) (response_message (final r))
           \<and> str_in (title (description w)) (response_message (final r))
           \<and> str_in (str_int (humidity w)) (response_message (final r))
           \<and> (\<exists>!a. a \<in> set [advice_umbrella, advice_heat, advice_cold, advice_neutral]
                  \<and> response_message (final r) = weather_report e (location_or_default i) w @ a)
           \<and> (is_rainy w \<longrightarrow> weather_advice w = advice_umbrella)
           \<and> (\<not> is_rainy w \<and> temperature w > 30 \<longrightarrow> weather_advice w = advice_heat)
           \<and> (\<not> is_rainy w \<and> temperature w < 20 \<longrightarrow> weather_advice w = advice_cold)
           \<and> (\<not> is_rainy w \<and> 20 \<le> temperature w \<and> temperature w \<le> 30 \<longrightarrow>
                 weather_advice w = advice_neutral)
           \<and> needs_clarification (final r) = needs_clarification st
           \<and> (st = initial_state (strip t) chat_id None
                \<and> \<not> (t = [] \<or> strip t = [] \<or> length (strip t) < 2)
                \<and> \<not> (map_of (cleanup_old_contexts (now_cleanup clk) ctxs) chat_id \<noteq> None
                       \<and> \<not> (any_in scheduling_keywords (lower (strip t))
                              \<and> length (split (strip t)) > 3)) \<longrightarrow>
                needs_clarification (final r) = False
                \<and> replies (handle_message e clk ctxs (Some t) chat_id)
                    = [response_message (final r)]
                \<and> map_of (contexts_after (handle_message e clk ctxs (Some t) chat_id)) chat_id
                    = None)"
proof -
  let ?msg = "weather_report e (location_or_default i) w @ weather_advice w"
  let ?r = "\<lparr>final = st\<lparr>intent := Some i, weather := Some w, response_message := ?msg\<rparr>,
             visited = [Extract_intent, Weather_query],
             calls = [Gemini_call (user_message st),
                      Weather_call (datetime_str i) (location_or_default i)]\<rparr>"
  have run: "ainvoke e st = Inr ?r"
    using assms ainvoke_weather_query [of e st] by simp
  have one: "\<exists>!a. a \<in> set [advice_umbrella, advice_heat, advice_cold, advice_neutral]
                  \<and> ?msg = weather_report e (location_or_default i) w @ a"
    using weather_advice_cases [of w] by auto
  have sel: "(is_rainy w \<longrightarrow> weather_advice w = advice_umbrella)
           \<and> (\<not> is_rainy w \<and> temperature w > 30 \<longrightarrow> weather_advice w = advice_heat)
           \<and> (\<not> is_rainy w \<and> temperature w < 20 \<longrightarrow> weather_advice w = advice_cold)
           \<and> (\<not> is_rainy w \<and> 20 \<le> temperature w \<and> temperature w \<le> 30 \<longrightarrow>
                 weather_advice w = advice_neutral)"
    by (simp add: weather_advice_def)
  have bot: "needs_clarification (final ?r) = False
                \<and> replies (handle_message e clk ctxs (Some t) chat_id)
                    = [response_message (final ?r)]
                \<and> map_of (contexts_after (handle_message e clk ctxs (Some t) chat_id)) chat_id
                    = None"
    if "st = initial_state (strip t) chat_id None"
      and "\<not> (t = [] \<or> strip t = [] \<or> length (strip t) < 2)"
      and "\<not> (map_of (cleanup_old_contexts (now_cleanup clk) ctxs) chat_id \<noteq> None
                       \<and> \<not> (any_in scheduling_keywords (lower (strip t))
                              \<and> length (split (strip t)) > 3))"
  proof -
    have run': "ainvoke e (initial_state (strip t) chat_id None) = Inr ?r"
      using run that(1) by simp
    have nc: "needs_clarification (final ?r) = False"
      using that(1) by (simp add: initial_state_def)
    have st: "store_after_run clk chat_id
                (st\<lparr>intent := Some i, weather := Some w, response_message := ?msg\<rparr>) c = c" for c
      using nc by (simp add: store_after_run_def)
    show ?thesis
      using that(2,3) nc
      by (auto simp: handle_message_def Let_def run' st delete_conv')
  qed
  show ?thesis
    apply (rule exI [of _ ?r])
    apply (intro conjI)
                apply (rule run)
               apply simp
              apply simp
             apply (simp add: weather_report_contains)
            apply (simp add: weather_report_contains)
           apply (simp add: weather_report_contains)
          using one apply simp
         using sel apply simp
        using sel apply simp
       using sel apply simp
      using sel apply simp
     apply simp
    using bot apply blast
    done
qed

theorem weather_query_response_witness:
  "is_weather_query weather_query_intent \<and> confidence weather_query_intent > 0.5
   \<and> replies (handle_message (const_env weather_query_intent fallback_weather True) sample_clock
                [] (Some '' what's the weather like?'') 7)
       = [weather_report (const_env weather_query_intent fallback_weather True) ''Singapore''
            fallback_weather @ advice_neutral]
   \<and> map_of (contexts_after (handle_message (const_env weather_query_intent fallback_weather True)
                sample_clock [] (Some '' what's the weather like?'') 7)) 7 = None
   \<and> str_in ''25.0'' (weather_report (const_env weather_query_intent fallback_weather True)
                        ''Singapore'' fallback_weather @ advice_neutral)
   \<and> str_in ''Clear Sky'' (weather_report (const_env weather_query_intent fallback_weather True)
                        ''Singapore'' fallback_weather @ advice_neutral)
   \<and> str_in ''70'' (weather_report (const_env weather_query_intent fallback_weather True)
                        ''Singapore'' fallback_weather @ advice_neutral)"
proof -
  let ?e = "const_env weather_query_intent fallback_weather True"
  let ?t = "'' what's the weather like?''"
  let ?st = "initial_state (strip ?t) 7 None"
  have i: "extract_intent ?e (user_message ?st) = weather_query_intent"
    by (simp add: const_env_def)
  have w: "get_weather_forecast ?e (datetime_str weather_query_intent)
             (location_or_default weather_query_intent) = fallback_weather"
    by (simp add: const_env_def)
  have loc: "location_or_default weather_query_intent = ''Singapore''"
    by (simp add: location_or_default_def weather_query_intent_def)
  have h1: "is_weather_query weather_query_intent" and h2: "confidence weather_query_intent > 0.5"
    and h3: "activity weather_query_intent \<notin> {''unknown'', ''casual conversation''}"
    by (simp_all add: weather_query_intent_def)
  have t: "\<not> (?t = [] \<or> strip ?t = [] \<or> length (strip ?t) < 2)"
    by (simp add: strip_def is_space_def)
  have fresh: "\<not> (map_of (cleanup_old_contexts (now_cleanup sample_clock) []) (7::int) \<noteq> None
                  \<and> \<not> (any_in scheduling_keywords (lower (strip ?t))
                         \<and> length (split (strip ?t)) > 3))"
    by (simp add: cleanup_old_contexts_def expired_chats_def)
  have adv: "weather_advice fallback_weather = advice_neutral"
    by (simp add: weather_advice_def fallback_weather_def)
  have sf: "str_float ?e (temperature fallback_weather) = ''25.0''"
    by (simp add: const_env_def fallback_weather_def sample_str_float_def)
  have ti: "title (description fallback_weather) = ''Clear Sky''"
    by (simp add: fallback_weather_def title_def is_alpha_def upper_char_def lower_char_def)
  have hu: "str_int (humidity fallback_weather) = ''70''"
    by (simp add: fallback_weather_def str_int_def str_nat.simps digit_char_def)
  from weather_query_response [OF i [symmetric] w [symmetric] h1 h2 h3,
                               of ?t 7 sample_clock "[]"]
  obtain r :: run_result where
    msg: "response_message (final r)
            = weather_report ?e (location_or_default weather_query_intent) fallback_weather
                @ weather_advice fallback_weather"
    and s1: "str_in (str_float ?e (temperature fallback_weather)) (response_message (final r))"
    and s2: "str_in (title (description fallback_weather)) (response_message (final r))"
    and s3: "str_in (str_int (humidity fallback_weather)) (response_message (final r))"
    and bot: "?st = initial_state (strip ?t) 7 None
                \<and> \<not> (?t = [] \<or> strip ?t = [] \<or> length (strip ?t) < 2)
                \<and> \<not> (map_of (cleanup_old_contexts (now_cleanup sample_clock) []) (7::int) \<noteq> None
                       \<and> \<not> (any_in scheduling_keywords (lower (strip ?t))
                              \<and> length (split (strip ?t)) > 3)) \<longrightarrow>
                needs_clarification (final r) = False
                \<and> replies (handle_message ?e sample_clock [] (Some ?t) 7)
                    = [response_message (final r)]
                \<and> map_of (contexts_after (handle_message ?e sample_clock [] (Some ?t) 7)) 7
                    = None"
    by (elim exE conjE) (rule that; assumption)
  from bot t fresh
  have rep: "replies (handle_message ?e sample_clock [] (Some ?t) 7) = [response_message (final r)]"
    and none: "map_of (contexts_after (handle_message ?e sample_clock [] (Some ?t) 7)) 7 = None"
    by blast+
  have m: "response_message (final r) = weather_report ?e ''Singapore'' fallback_weather @ advice_neutral"
    using msg by (simp only: loc adv)
  from h1 h2 rep none s1 s2 s3 show ?thesis
    by (simp only: m sf ti hu simp_thms)
qed

text \<open>
  The same holds when the run is started by the reply to a time clarification: a run that
  answers a weather query deletes the pending entry of the chat.
\<close>

lemma time_reply_weather_query_clears_pending:
  assumes "original_intent ctx = Some original"
    and "fromisoformat (replace (datetime_str original) ''Z'' ''+00:00'') = Some od"
    and "msg = combined_message original (date_reference (date od) (today clk)) m"
    and "i = extract_intent e msg"
    and "has_specific_time i" and "confidence i > 0.7"
    and "fromisoformat (replace (datetime_str i) ''Z'' ''+00:00'') = Some ud"
    and "is_weather_query i" and "activity i \<notin> {''unknown'', ''casual conversation''}"
  shows "contexts_after (handle_time_clarification_response e clk ctxs m chat_id ctx)
           = AList.delete chat_id ctxs
         \<and> replies (handle_time_clarification_response e clk ctxs m chat_id ctx)
           = [weather_report e (location_or_default i)
                (get_weather_forecast e (datetime_str i) (location_or_default i))
              @ weather_advice (get_weather_forecast e (datetime_str i) (location_or_default i))]"
proof -
  let ?st = "initial_state msg chat_id (Some (corrected_intent od ud i))"
  have um: "user_message ?st = msg" by (simp add: initial_state_def)
  have c: "confidence i > 0.5" using assms(6) by simp
  have run: "ainvoke e ?st =
     Inr \<lparr>final = ?st\<lparr>intent := Some i,
                     weather := Some (get_weather_forecast e (datetime_str i) (location_or_default i)),
                     response_message :=
                       weather_report e (location_or_default i)
                         (get_weather_forecast e (datetime_str i) (location_or_default i))
                       @ weather_advice (get_weather_forecast e (datetime_str i)
                           (location_or_default i))\<rparr>,
          visited = [Extract_intent, Weather_query],
          calls = [Gemini_call msg, Weather_call (datetime_str i) (location_or_default i)]\<rparr>"
    using ainvoke_weather_query [of e ?st] assms(4,8,9) c unfolding um by simp
  have nc: "needs_clarification ?st = False" by (simp add: initial_state_def)
  show ?thesis
    using assms(1,2,5,6,7) assms(3) [symmetric] assms(4) [symmetric] nc
    by (simp add: handle_time_clarification_response_def Let_def run)
qed

section \<open>Evaluating the handlers\<close>

lemma days_between_example: "days_between (2025, 5, 28) (2025, 5, 27) = 1"
  by (simp add: days_between_def toordinal_def days_before_year_def days_before_month_def
        days_in_month_def is_leap_def upt_rec_numeral)

lemma date_reference_example: "date_reference (2025, 5, 28) (2025, 5, 27) = ''tomorrow''"
  by (simp add: date_reference_def days_between_example)

lemma fromisoformat_midnight:
  "fromisoformat ''2025-05-28T00:00:00''
     = Some \<lparr>year = 2025, month = 5, day = 28, hour = 0, minute = 0, second = 0,
             microsecond = 0, tzinfo = None\<rparr>"
  by code_simp

lemma fromisoformat_evening:
  "fromisoformat ''2025-05-27T18:00:00''
     = Some \<lparr>year = 2025, month = 5, day = 27, hour = 18, minute = 0, second = 0,
             microsecond = 0, tzinfo = None\<rparr>"
  by code_simp

lemma isoformat_evening:
  "isoformat \<lparr>year = 2025, month = 5, day = 28, hour = 18, minute = 0, second = 0,
              microsecond = 0, tzinfo = None\<rparr> = ''2025-05-28T18:00:00''"
  by code_simp

lemma human_readable_evening:
  "format_datetime_human_readable ''2025-05-27T18:00:00'' = ''27 May 2025, 6:00 PM''"
  by code_simp

text \<open>
  The workflow starts at \<^verbatim>\<open>extract_intent\<close>, which overwrites the intent: a run does not
  depend on the intent of the state it is started with.
\<close>

lemma ainvoke_ignores_initial_intent:
  "ainvoke e (st\<lparr>intent := x\<rparr>) = ainvoke e (st\<lparr>intent := y\<rparr>)"
  by (simp add: ainvoke_def run_from.simps [of _ Extract_intent] extract_intent_node_def)

text \<open>
  C2 does not hold of the code. A time clarification is pending for a run on 28 May 2025
  (date only); today is 27 May; the reply is "6pm", and the extractor answers the combined
  message with 18:00 on 27 May, confidence 0.9, specific time. The handler corrects the date
  to 28 May and puts the corrected intent into the initial state, but the run starts at
  \<^verbatim>\<open>extract_intent\<close>: the extractor is called again on the combined message, and the weather
  is checked and the event is created for its answer, 27 May 18:00.
\<close>

theorem time_reply_runs_from_extract_intent:
  "corrected_intent
     \<lparr>year = 2025, month = 5, day = 28, hour = 0, minute = 0, second = 0, microsecond = 0,
      tzinfo = None\<rparr>
     \<lparr>year = 2025, month = 5, day = 27, hour = 18, minute = 0, second = 0, microsecond = 0,
      tzinfo = None\<rparr>
     (run_intent ''2025-05-27T18:00:00'' True)
     = run_intent ''2025-05-28T18:00:00'' True
   \<and> handle_message (const_env (run_intent ''2025-05-27T18:00:00'' True) fallback_weather True)
       sample_clock [(7, pending_at ''time_clarification'' 1990)] (Some ''6pm'') 7
     = \<lparr>contexts_after = [],
        replies = [msg_event_created ''run'' ''27 May 2025, 6:00 PM''],
        made_calls =
          [Gemini_call ''I want to run tomorrow at 6pm'',
           Gemini_call ''I want to run tomorrow at 6pm'',
           Weather_call ''2025-05-27T18:00:00'' ''Singapore'',
           Calendar_call (Some (run_intent ''2025-05-27T18:00:00'' True))],
        raised = None\<rparr>"
proof -
  let ?e = "const_env (run_intent ''2025-05-27T18:00:00'' True) fallback_weather True"
  have c: "corrected_intent
     \<lparr>year = 2025, month = 5, day = 28, hour = 0, minute = 0, second = 0, microsecond = 0,
      tzinfo = None\<rparr>
     \<lparr>year = 2025, month = 5, day = 27, hour = 18, minute = 0, second = 0, microsecond = 0,
      tzinfo = None\<rparr>
     (run_intent ''2025-05-27T18:00:00'' True)
     = run_intent ''2025-05-28T18:00:00'' True"
    by (simp add: corrected_intent_def date_def isoformat_evening run_intent_def)
  have run: "ainvoke ?e (initial_state ''I want to run tomorrow at 6pm'' 7
                           (Some (run_intent ''2025-05-28T18:00:00'' True)))
      = Inr \<lparr>final = \<lparr>user_message = ''I want to run tomorrow at 6pm'', telegram_chat_id = 7,
                       intent = Some (run_intent ''2025-05-27T18:00:00'' True),
                       weather = Some fallback_weather, calendar_event_created = True,
                       response_message = msg_event_created ''run'' ''27 May 2025, 6:00 PM'',
                       needs_clarification = False\<rparr>,
             visited = [Extract_intent, Check_weather, Create_event],
             calls = [Gemini_call ''I want to run tomorrow at 6pm'',
                      Weather_call ''2025-05-27T18:00:00'' ''Singapore'',
                      Calendar_call (Some (run_intent ''2025-05-27T18:00:00'' True))]\<rparr>"
    by (simp add: ainvoke_def run_from_unfold initial_state_def extract_intent_node_def
          check_weather_node_def create_calendar_event_node_def should_check_weather_def
          should_create_event_def create_event_def location_or_default_def const_env_def
          run_intent_def fallback_weather_def human_readable_evening)
  have h: "handle_message ?e sample_clock [(7, pending_at ''time_clarification'' 1990)]
             (Some ''6pm'') 7
           = handle_time_clarification_response ?e sample_clock
               [(7, pending_at ''time_clarification'' 1990)] ''6pm'' 7
               (pending_at ''time_clarification'' 1990)"
    by (simp add: handle_message_def strip_def is_space_def cleanup_old_contexts_def
          expired_chats_def sample_clock_def pending_at_def any_in_def scheduling_keywords_def
          lower_def lower_char_def handle_clarification_response_def)
  have t: "handle_time_clarification_response ?e sample_clock
               [(7, pending_at ''time_clarification'' 1990)] ''6pm'' 7
               (pending_at ''time_clarification'' 1990)
     = \<lparr>contexts_after = [],
        replies = [msg_event_created ''run'' ''27 May 2025, 6:00 PM''],
        made_calls =
          [Gemini_call ''I want to run tomorrow at 6pm'',
           Gemini_call ''I want to run tomorrow at 6pm'',
           Weather_call ''2025-05-27T18:00:00'' ''Singapore'',
           Calendar_call (Some (run_intent ''2025-05-27T18:00:00'' True))],
        raised = None\<rparr>"
  proof -
    have oi: "original_intent (pending_at ''time_clarification'' 1990)
                = Some (run_intent ''2025-05-28T00:00:00'' False)"
      by (simp add: pending_at_def)
    have ds: "datetime_str (run_intent ''2025-05-28T00:00:00'' False) = ''2025-05-28T00:00:00''"
      "datetime_str (run_intent ''2025-05-27T18:00:00'' True) = ''2025-05-27T18:00:00''"
      "activity (run_intent ''2025-05-28T00:00:00'' False) = ''run''"
      "has_specific_time (run_intent ''2025-05-27T18:00:00'' True)"
      "confidence (run_intent ''2025-05-27T18:00:00'' True) = 0.9"
      by (simp_all add: run_intent_def)
    have ex: "extract_intent ?e m = run_intent ''2025-05-27T18:00:00'' True" for m
      by (simp add: const_env_def)
    have td: "today sample_clock = (2025, 5, 27)" by (simp add: sample_clock_def)
    have cm: "combined_message (run_intent ''2025-05-28T00:00:00'' False) ''tomorrow'' ''6pm''
                = ''I want to run tomorrow at 6pm''"
      by (simp add: combined_message_def run_intent_def)
    show ?thesis
      by (simp add: handle_time_clarification_response_def oi ds fromisoformat_midnight
            fromisoformat_evening date_def td date_reference_example cm ex c run Let_def)
  qed
  from c h t show ?thesis by simp
qed

text \<open>
  What \<^verbatim>\<open>handle_message\<close> stores after the run of a fresh turn: a time clarification when
  the run ended in \<^verbatim>\<open>request_time_clarification\<close>, and also when it ended in
  \<^verbatim>\<open>request_clarification\<close> straight after the extraction with confidence above 0.5 and no
  specific time; a weather clarification when it ended in \<^verbatim>\<open>request_clarification\<close> after
  the weather check (the weather is rainy then); nothing otherwise.
\<close>

lemma fresh_run_write_policy:
  assumes "\<not> (t = [] \<or> strip t = [] \<or> length (strip t) < 2)"
    and "\<not> (map_of (cleanup_old_contexts (now_cleanup clk) ctxs) chat_id \<noteq> None
            \<and> \<not> (any_in scheduling_keywords (lower (strip t))
                   \<and> length (split (strip t)) > 3))"
    and "i = extract_intent e (strip t)"
  shows "\<exists>r. ainvoke e (initial_state (strip t) chat_id None) = Inr r
           \<and> map_of (contexts_after (handle_message e clk ctxs (Some t) chat_id)) chat_id =
               (if visited r = [Extract_intent, Request_time_clarification]
                   \<or> (visited r = [Extract_intent, Request_clarification]
                       \<and> confidence i > 0.5 \<and> \<not> has_specific_time i)
                then Some \<lparr>original_intent = Some i, pending_weather = None,
                           waiting_for = ''time_clarification'', timestamp = now_store clk\<rparr>
                else if visited r = [Extract_intent, Check_weather, Request_clarification]
                then Some \<lparr>original_intent = Some i, pending_weather = weather (final r),
                           waiting_for = ''weather_clarification'', timestamp = now_store clk\<rparr>
                else None)
           \<and> (visited r = [Extract_intent, Check_weather, Request_clarification]
                \<longrightarrow> (\<exists>w. weather (final r) = Some w \<and> is_rainy w))"
  using assms
  by (auto simp: handle_message_def Let_def ainvoke_def run_from_unfold initial_state_def
        extract_intent_node_def should_check_weather_def should_create_event_def
        check_weather_node_def weather_query_node_def create_calendar_event_node_def
        request_time_clarification_node_def request_clarification_node_def
        casual_conversation_node_def create_event_def store_after_run_def
        update_conv' delete_conv'
        split: option.splits)

text \<open>
  C3 does not hold of the code. The extractor answers a message with activity "unknown",
  confidence 0.9 and no specific time; the router sends the run to
  \<^verbatim>\<open>request_clarification\<close>, not to \<^verbatim>\<open>request_time_clarification\<close>, and yet
  \<^verbatim>\<open>handle_message\<close>, which reads the reason off the final state, stores a time
  clarification for the chat.
\<close>

theorem unknown_activity_stores_time_clarification:
  "ainvoke (const_env (unknown_intent 0.9) fallback_weather True)
     (initial_state ''do the thing'' 7 None)
     = Inr \<lparr>final = \<lparr>user_message = ''do the thing'', telegram_chat_id = 7,
                      intent = Some (unknown_intent 0.9), weather = None,
                      calendar_event_created = False, response_message = msg_unclear_intent,
                      needs_clarification = True\<rparr>,
            visited = [Extract_intent, Request_clarification],
            calls = [Gemini_call ''do the thing'']\<rparr>
   \<and> handle_message (const_env (unknown_intent 0.9) fallback_weather True) sample_clock []
       (Some ''do the thing'') 7
     = \<lparr>contexts_after =
          [(7, \<lparr>original_intent = Some (unknown_intent 0.9), pending_weather = None,
                waiting_for = ''time_clarification'', timestamp = 2003\<rparr>)],
        replies = [msg_unclear_intent],
        made_calls = [Gemini_call ''do the thing''], raised = None\<rparr>"
proof -
  let ?e = "const_env (unknown_intent 0.9) fallback_weather True"
  have run: "ainvoke ?e (initial_state ''do the thing'' 7 None)
     = Inr \<lparr>final = \<lparr>user_message = ''do the thing'', telegram_chat_id = 7,
                      intent = Some (unknown_intent 0.9), weather = None,
                      calendar_event_created = False, response_message = msg_unclear_intent,
                      needs_clarification = True\<rparr>,
            visited = [Extract_intent, Request_clarification],
            calls = [Gemini_call ''do the thing'']\<rparr>"
    by (simp add: ainvoke_def run_from_unfold initial_state_def extract_intent_node_def
          request_clarification_node_def should_check_weather_def const_env_def
          unknown_intent_def)
  have st: "strip ''do the thing'' = ''do the thing''"
    by (simp add: strip_def is_space_def)
  have "handle_message ?e sample_clock [] (Some ''do the thing'') 7
     = \<lparr>contexts_after =
          [(7, \<lparr>original_intent = Some (unknown_intent 0.9), pending_weather = None,
                waiting_for = ''time_clarification'', timestamp = 2003\<rparr>)],
        replies = [msg_unclear_intent],
        made_calls = [Gemini_call ''do the thing''], raised = None\<rparr>"
    by (simp add: handle_message_def st cleanup_old_contexts_def expired_chats_def run
          store_after_run_def sample_clock_def)
       (simp add: unknown_intent_def)
  with run show ?thesis by simp
qed

section \<open>Reading back what \<^verbatim>\<open>isoformat\<close> writes\<close>













lemma length_str_nat: "0 < k \<Longrightarrow> n < 10 ^ k \<Longrightarrow> length (str_nat n) \<le> k"
proof (induction n arbitrary: k rule: str_nat.induct)
  case (1 n)
  show ?case
  proof (cases "n < 10")
    case True
    with 1 show ?thesis by (subst str_nat.simps) simp
  next
    case False
    from "1.prems" obtain j where k: "k = Suc j" by (cases k) auto
    have j: "0 < j"
    proof (rule ccontr)
      assume "\<not> 0 < j"
      with k "1.prems" have "n < 10" by simp
      with False show False by simp
    qed
    from "1.prems" k have "n < 10 * 10 ^ j" by simp
    then have "n div 10 < 10 ^ j" by (simp add: less_mult_imp_div_less mult.commute)
    with 1 False j have "length (str_nat (n div 10)) \<le> j" by simp
    with False k show ?thesis by (subst str_nat.simps) simp
  qed
qed


lemma zero_pad_length: "0 < k \<Longrightarrow> n < 10 ^ k \<Longrightarrow> length (zero_pad k n) = k"
  using length_str_nat [of k n] by (simp add: zero_pad_def)








lemma zero_pad_nonempty: "0 < k \<Longrightarrow> n < 10 ^ k \<Longrightarrow> zero_pad k n \<noteq> []"
  using zero_pad_length [of k n] by auto
















end
